theory Spec2Isabelle
  imports Complex_Main "HOL-Library.Multiset"
begin

section \<open>Data model\<close>

text \<open>
  The models of \<^verbatim>\<open>models/book.py\<close>, \<^verbatim>\<open>models/selection.py\<close> and \<^verbatim>\<open>models/vote.py\<close>.
  A date is a triple (year, month, day). Of a book only the identifier, the ISBN and the
  title are kept: no workflow operation reads the summary, the price, the author, the
  editor or the characters.
\<close>

type_synonym date = "nat \<times> nat \<times> nat"

record Book =
  b_id :: int
  isbn :: string
  b_title :: string

text \<open>A row of table \<^verbatim>\<open>selection\<close>, and the \<^verbatim>\<open>Selection\<close> object, which adds the books.\<close>

record selection_row =
  s_id :: int
  s_name :: string
  s_round :: int
  s_date :: "date option"

record Selection = selection_row +
  book :: "Book list"

text \<open>
  A row of table \<^verbatim>\<open>vote\<close> (columns \<^verbatim>\<open>b_id\<close>, \<^verbatim>\<open>s_id\<close> written \<open>v_b_id\<close>, \<open>v_s_id\<close>), and the
  \<^verbatim>\<open>Vote\<close> object (attributes \<^verbatim>\<open>book\<close>, \<^verbatim>\<open>selection\<close> written \<open>v_book\<close>, \<open>v_selection\<close>);
  \<open>v_book\<close> is optional because \<^verbatim>\<open>BookDAO.read\<close> may return \<^verbatim>\<open>None\<close>.
\<close>

record vote_core =
  v_id :: int
  v_number_vote :: int
  v_date_vote :: date

record vote_row = vote_core +
  v_b_id :: int
  v_s_id :: int

record Vote = vote_core +
  v_book :: "Book option"
  v_selection :: Selection

section \<open>The database behind the DAOs\<close>

text \<open>
  All DAOs share one connection (\<^verbatim>\<open>Dao.connection\<close>), so the state is what that
  connection reads: four tables, each a list of rows in insertion order. No DAO method
  rolls back, hence a statement that was executed stays visible to every later read of
  the process, committed or not.

  \<open>faults\<close> is the schedule of persistence errors: every \<^verbatim>\<open>cursor.execute\<close> and every
  \<^verbatim>\<open>connection.commit\<close> consumes its head, and raises when the head is \<open>True\<close>; the empty
  schedule means that no statement raises any more. \<open>DbError\<close> stands for the driver's
  exceptions, the other two for the Python exceptions of the same name.

  What the SQL text itself shows of the schema is modelled: identifiers are
  AUTO_INCREMENT (\<^verbatim>\<open>lastrowid\<close> is read after an insert), and \<^verbatim>\<open>book_selection\<close> has the key
  (\<^verbatim>\<open>b_id\<close>, \<^verbatim>\<open>s_id\<close>) that gives \<^verbatim>\<open>INSERT IGNORE\<close> its meaning. Column \<^verbatim>\<open>s_round\<close> carries no
  uniqueness constraint: \<^verbatim>\<open>SelectionDAO.create\<close> only ever inserts, and the console offers
  to create a round again.
\<close>

datatype exn = DbError | ZeroDivisionError | AttributeError

record db =
  faults :: "bool list"
  book_tbl :: "Book list"
  selection_tbl :: "selection_row list"
  book_selection_tbl :: "(int \<times> int) list"
  vote_tbl :: "vote_row list"

definition stmt :: "db \<Rightarrow> exn option \<times> db" where
  "stmt \<sigma> = (case faults \<sigma> of
       [] \<Rightarrow> (None, \<sigma>)
     | f # fs \<Rightarrow> (if f then Some DbError else None, \<sigma>\<lparr>faults := fs\<rparr>))"

text \<open>
  AUTO_INCREMENT: one more than the greatest identifier of the table, at least 1. The
  counter of the database never goes back, so after a \<^verbatim>\<open>DELETE\<close> it may issue a greater
  identifier than this one. The proofs use that the identifier is positive and new;
  where a statement below shows identifiers, the rows were inserted with no deletion
  before, and the two agree.
\<close>

definition lastrowid :: "int list \<Rightarrow> int" where
  "lastrowid ids = 1 + fold max ids 0"

section \<open>BookDAO\<close>

text \<open>
  \<^verbatim>\<open>fetchone\<close> gives the first matching row. The \<^verbatim>\<open>ORDER BY\<close> clauses of the book queries
  sort on the title and on the author's name; the workflow uses their results through
  membership, length and position only, and the rows are returned in table order.
\<close>

definition BookDAO_read :: "int \<Rightarrow> db \<Rightarrow> Book option \<times> db" where
  "BookDAO_read pk \<sigma> = (case stmt \<sigma> of
       (Some e, \<sigma>') \<Rightarrow> (None, \<sigma>')
     | (None, \<sigma>') \<Rightarrow>
         (case filter (\<lambda>b. b_id b = pk) (book_tbl \<sigma>') of
            [] \<Rightarrow> (None, \<sigma>')
          | result # _ \<Rightarrow> (Some result, \<sigma>')))"

definition BookDAO_read_all :: "db \<Rightarrow> Book list \<times> db" where
  "BookDAO_read_all \<sigma> = (case stmt \<sigma> of
       (Some e, \<sigma>') \<Rightarrow> ([], \<sigma>')
     | (None, \<sigma>') \<Rightarrow> (book_tbl \<sigma>', \<sigma>'))"

definition get_books_by_selection :: "int \<Rightarrow> db \<Rightarrow> Book list \<times> db" where
  "get_books_by_selection selection_id \<sigma> = (case stmt \<sigma> of
       (Some e, \<sigma>') \<Rightarrow> ([], \<sigma>')
     | (None, \<sigma>') \<Rightarrow>
         (filter (\<lambda>b. (b_id b, selection_id) \<in> set (book_selection_tbl \<sigma>')) (book_tbl \<sigma>'), \<sigma>'))"

section \<open>SelectionDAO\<close>

definition create_selection_from_result :: "selection_row \<Rightarrow> Selection" where
  "create_selection_from_result result =
     \<lparr>s_id = s_id result, s_name = s_name result, s_round = s_round result,
      s_date = s_date result, book = []\<rparr>"

text \<open>
  \<^verbatim>\<open>add_book_to_selection\<close>: \<^verbatim>\<open>INSERT IGNORE\<close>, then commit; the result is
  \<^verbatim>\<open>rowcount > 0\<close>, and \<^verbatim>\<open>False\<close> when either call raises.
\<close>

definition add_book_to_selection :: "int \<Rightarrow> int \<Rightarrow> db \<Rightarrow> bool \<times> db" where
  "add_book_to_selection book_id selection_id \<sigma> = (case stmt \<sigma> of
       (Some e, \<sigma>1) \<Rightarrow> (False, \<sigma>1)
     | (None, \<sigma>1) \<Rightarrow>
         (let present = ((book_id, selection_id) \<in> set (book_selection_tbl \<sigma>1));
              \<sigma>2 = (if present then \<sigma>1
                    else \<sigma>1\<lparr>book_selection_tbl :=
                              book_selection_tbl \<sigma>1 @ [(book_id, selection_id)]\<rparr>)
          in case stmt \<sigma>2 of
               (Some e, \<sigma>3) \<Rightarrow> (False, \<sigma>3)
             | (None, \<sigma>3) \<Rightarrow> (\<not> present, \<sigma>3)))"

text \<open>The loop of \<^verbatim>\<open>SelectionDAO.create\<close>; the result of each call is dropped.\<close>

fun add_books :: "Book list \<Rightarrow> int \<Rightarrow> db \<Rightarrow> db" where
  "add_books [] selection_id \<sigma> = \<sigma>"
| "add_books (b # bs) selection_id \<sigma> =
     add_books bs selection_id (snd (add_book_to_selection (b_id b) selection_id \<sigma>))"

text \<open>
  \<^verbatim>\<open>SelectionDAO.create\<close>: insert the row, commit, read \<^verbatim>\<open>lastrowid\<close>, attach the books,
  return the identifier; 0 when the insert or the commit raises.
\<close>

definition SelectionDAO_create :: "Selection \<Rightarrow> db \<Rightarrow> int \<times> db" where
  "SelectionDAO_create obj \<sigma> = (case stmt \<sigma> of
       (Some e, \<sigma>1) \<Rightarrow> (0, \<sigma>1)
     | (None, \<sigma>1) \<Rightarrow>
         (let selection_id = lastrowid (map s_id (selection_tbl \<sigma>1));
              \<sigma>2 = \<sigma>1\<lparr>selection_tbl := selection_tbl \<sigma>1 @
                        [\<lparr>s_id = selection_id, s_name = s_name obj,
                          s_round = s_round obj, s_date = s_date obj\<rparr>]\<rparr>
          in case stmt \<sigma>2 of
               (Some e, \<sigma>3) \<Rightarrow> (0, \<sigma>3)
             | (None, \<sigma>3) \<Rightarrow> (selection_id, add_books (book obj) selection_id \<sigma>3)))"

definition find_by_round :: "int \<Rightarrow> db \<Rightarrow> Selection option \<times> db" where
  "find_by_round round_number \<sigma> = (case stmt \<sigma> of
       (Some e, \<sigma>1) \<Rightarrow> (None, \<sigma>1)
     | (None, \<sigma>1) \<Rightarrow>
         (case filter (\<lambda>r. s_round r = round_number) (selection_tbl \<sigma>1) of
            [] \<Rightarrow> (None, \<sigma>1)
          | result # _ \<Rightarrow>
              (let selection = create_selection_from_result result;
                   (books, \<sigma>2) = get_books_by_selection (s_id selection) \<sigma>1
               in (Some (selection\<lparr>book := books\<rparr>), \<sigma>2))))"

section \<open>VoteDAO\<close>

text \<open>
  The rows of \<^verbatim>\<open>get_final_results\<close>: \<^verbatim>\<open>vote\<close> joined with \<^verbatim>\<open>book\<close> and \<^verbatim>\<open>selection\<close>,
  restricted to round 4, ordered by descending vote count. The sort is stable, rows
  with equal counts keep their table order.
\<close>

definition final_rows :: "db \<Rightarrow> (vote_row \<times> Book \<times> selection_row) list" where
  "final_rows \<sigma> =
     sort_key (\<lambda>(v, b, s). - v_number_vote v)
       [(v, b, s). v \<leftarrow> vote_tbl \<sigma>, b \<leftarrow> book_tbl \<sigma>, b_id b = v_b_id v,
                   s \<leftarrow> selection_tbl \<sigma>, s_id s = v_s_id v, s_round s = 4]"

text \<open>\<^verbatim>\<open>_create_vote_from_result\<close> reads the book again, through \<^verbatim>\<open>BookDAO.read\<close>.\<close>

definition create_vote_from_result ::
    "vote_row \<times> Book \<times> selection_row \<Rightarrow> db \<Rightarrow> Vote \<times> db" where
  "create_vote_from_result result \<sigma> = (case result of (v, b, s) \<Rightarrow>
     (let (book, \<sigma>') = BookDAO_read (v_b_id v) \<sigma>;
          selection = \<lparr>s_id = s_id s, s_name = s_name s, s_round = s_round s,
                       s_date = s_date s, book = []\<rparr>
      in (\<lparr>v_id = v_id v, v_number_vote = v_number_vote v, v_date_vote = v_date_vote v,
           v_book = book, v_selection = selection\<rparr>, \<sigma>')))"

fun create_votes :: "(vote_row \<times> Book \<times> selection_row) list \<Rightarrow> db \<Rightarrow> Vote list \<times> db" where
  "create_votes [] \<sigma> = ([], \<sigma>)"
| "create_votes (result # results) \<sigma> =
     (let (vote, \<sigma>1) = create_vote_from_result result \<sigma>;
          (votes, \<sigma>2) = create_votes results \<sigma>1
      in (vote # votes, \<sigma>2))"

definition VoteDAO_get_final_results :: "db \<Rightarrow> Vote list \<times> db" where
  "VoteDAO_get_final_results \<sigma> = (case stmt \<sigma> of
       (Some e, \<sigma>') \<Rightarrow> ([], \<sigma>')
     | (None, \<sigma>') \<Rightarrow> create_votes (final_rows \<sigma>') \<sigma>')"

text \<open>
  The insert loop of \<^verbatim>\<open>VoteDAO.record_final_votes\<close>: one \<^verbatim>\<open>INSERT\<close> per item of the
  dictionary, in the dictionary's order; the first statement that raises ends the loop.
  The dictionary is an association list.
\<close>

fun insert_votes :: "(int \<times> int) list \<Rightarrow> int \<Rightarrow> date \<Rightarrow> db \<Rightarrow> exn option \<times> db" where
  "insert_votes [] selection_id vote_date \<sigma> = (None, \<sigma>)"
| "insert_votes ((book_id, vote_count) # items) selection_id vote_date \<sigma> =
     (case stmt \<sigma> of
        (Some e, \<sigma>') \<Rightarrow> (Some e, \<sigma>')
      | (None, \<sigma>') \<Rightarrow>
          insert_votes items selection_id vote_date
            (\<sigma>'\<lparr>vote_tbl := vote_tbl \<sigma>' @
                 [\<lparr>v_id = lastrowid (map v_id (vote_tbl \<sigma>')), v_number_vote = vote_count,
                   v_date_vote = vote_date, v_b_id = book_id, v_s_id = selection_id\<rparr>]\<rparr>))"

text \<open>
  \<^verbatim>\<open>VoteDAO.record_final_votes\<close>: delete the votes of the selection, insert the new ones,
  commit. The handler prints and returns \<^verbatim>\<open>False\<close>; it does not roll back.
\<close>

definition VoteDAO_record_final_votes ::
    "(int \<times> int) list \<Rightarrow> int \<Rightarrow> date \<Rightarrow> db \<Rightarrow> bool \<times> db" where
  "VoteDAO_record_final_votes votes_data selection_id vote_date \<sigma> = (case stmt \<sigma> of
       (Some e, \<sigma>1) \<Rightarrow> (False, \<sigma>1)
     | (None, \<sigma>1) \<Rightarrow>
         (let \<sigma>2 = \<sigma>1\<lparr>vote_tbl := filter (\<lambda>v. v_s_id v \<noteq> selection_id) (vote_tbl \<sigma>1)\<rparr>
          in case insert_votes votes_data selection_id vote_date \<sigma>2 of
               (Some e, \<sigma>3) \<Rightarrow> (False, \<sigma>3)
             | (None, \<sigma>3) \<Rightarrow>
                 (case stmt \<sigma>3 of
                    (Some e, \<sigma>4) \<Rightarrow> (False, \<sigma>4)
                  | (None, \<sigma>4) \<Rightarrow> (True, \<sigma>4))))"

section \<open>GoncourtService\<close>

text \<open>
  Every operation takes the database and returns it with its result. The names of the
  rounds are written without their accents.
\<close>

definition initialize_first_selection :: "db \<Rightarrow> db" where
  "initialize_first_selection \<sigma> = (case find_by_round 1 \<sigma> of
       (Some premiere_selection, \<sigma>1) \<Rightarrow> \<sigma>1
     | (None, \<sigma>1) \<Rightarrow>
         (let (all_books, \<sigma>2) = BookDAO_read_all \<sigma>1
          in snd (SelectionDAO_create
                    \<lparr>s_id = 0, s_name = ''PREMIERE SELECTION'', s_round = 1,
                     s_date = Some (2025, 9, 3), book = all_books\<rparr> \<sigma>2)))"

text \<open>
  The first loop of \<^verbatim>\<open>create_deuxieme_selection\<close> and \<^verbatim>\<open>create_troisieme_selection\<close>:
  read each book, stop at the first identifier that is not found.
\<close>

fun read_books :: "int list \<Rightarrow> db \<Rightarrow> Book list option \<times> db" where
  "read_books [] \<sigma> = (Some [], \<sigma>)"
| "read_books (book_id # book_ids) \<sigma> =
     (case BookDAO_read book_id \<sigma> of
        (None, \<sigma>1) \<Rightarrow> (None, \<sigma>1)
      | (Some b, \<sigma>1) \<Rightarrow>
          (case read_books book_ids \<sigma>1 of
             (None, \<sigma>2) \<Rightarrow> (None, \<sigma>2)
           | (Some books, \<sigma>2) \<Rightarrow> (Some (b # books), \<sigma>2)))"

text \<open>
  \<^verbatim>\<open>create_deuxieme_selection\<close> and \<^verbatim>\<open>create_troisieme_selection\<close> are the same text up
  to the required count, the round read, and the name, number and date of the round
  written; \<open>create_selection_from\<close> is that text, with the five as parameters.
\<close>

definition create_selection_from ::
    "nat \<Rightarrow> int \<Rightarrow> string \<Rightarrow> int \<Rightarrow> date \<Rightarrow> int list \<Rightarrow> db \<Rightarrow> bool \<times> db" where
  "create_selection_from required previous name round_number day book_ids \<sigma> =
     (if length book_ids \<noteq> required then (False, \<sigma>)
      else case read_books book_ids \<sigma> of
          (None, \<sigma>1) \<Rightarrow> (False, \<sigma>1)
        | (Some books, \<sigma>1) \<Rightarrow>
            (case find_by_round previous \<sigma>1 of
               (None, \<sigma>2) \<Rightarrow> (False, \<sigma>2)
             | (Some parent, \<sigma>2) \<Rightarrow>
                 (let parent_book_ids = map b_id (book parent)
                  in if \<not> list_all (\<lambda>book_id. book_id \<in> set parent_book_ids) book_ids
                     then (False, \<sigma>2)
                     else (let (selection_id, \<sigma>3) =
                                 SelectionDAO_create
                                   \<lparr>s_id = 0, s_name = name, s_round = round_number,
                                    s_date = Some day, book = books\<rparr> \<sigma>2
                           in (selection_id \<noteq> 0, \<sigma>3)))))"

definition create_deuxieme_selection :: "int list \<Rightarrow> db \<Rightarrow> bool \<times> db" where
  "create_deuxieme_selection =
     create_selection_from 8 1 ''DEUXIEME SELECTION'' 2 (2025, 10, 7)"

definition create_troisieme_selection :: "int list \<Rightarrow> db \<Rightarrow> bool \<times> db" where
  "create_troisieme_selection =
     create_selection_from 4 2 ''TROISIEME SELECTION'' 3 (2025, 10, 28)"

definition create_final_selection :: "db \<Rightarrow> bool \<times> db" where
  "create_final_selection \<sigma> = (case find_by_round 3 \<sigma> of
       (None, \<sigma>1) \<Rightarrow> (False, \<sigma>1)
     | (Some troisieme, \<sigma>1) \<Rightarrow>
         (if length (book troisieme) \<noteq> 4 then (False, \<sigma>1)
          else (let (selection_id, \<sigma>2) =
                      SelectionDAO_create
                        \<lparr>s_id = 0, s_name = ''FINALISTES DU PRIX GONCOURT'', s_round = 4,
                         s_date = Some (2025, 11, 4), book = book troisieme\<rparr> \<sigma>1
                in (selection_id \<noteq> 0, \<sigma>2))))"

text \<open>\<^verbatim>\<open>record_final_votes\<close>; \<open>today\<close> is the value of \<^verbatim>\<open>date.today()\<close>.\<close>

definition record_final_votes :: "(int \<times> int) list \<Rightarrow> date \<Rightarrow> db \<Rightarrow> bool \<times> db" where
  "record_final_votes votes_data today \<sigma> = (case find_by_round 4 \<sigma> of
       (None, \<sigma>1) \<Rightarrow> (False, \<sigma>1)
     | (Some finale_selection, \<sigma>1) \<Rightarrow>
         (let finale_book_ids = map b_id (book finale_selection)
          in if \<not> list_all (\<lambda>book_id. book_id \<in> set finale_book_ids) (map fst votes_data)
             then (False, \<sigma>1)
             else if sum_list (map snd votes_data) \<noteq> 10 then (False, \<sigma>1)
             else VoteDAO_record_final_votes votes_data (s_id finale_selection) today \<sigma>1))"

definition get_final_results :: "db \<Rightarrow> Vote list \<times> db" where
  "get_final_results = VoteDAO_get_final_results"

text \<open>
  \<^verbatim>\<open>display_final_results\<close> prints; the model returns what is printed: nothing when there
  is no vote (\<open>None\<close>), else one line per vote with its percentage, and the winner,
  \<^verbatim>\<open>votes[0]\<close>. The percentage is a Python float; it is modelled by the exact quotient,
  without the rounding of floating-point division. \<^verbatim>\<open>/\<close> raises on a zero divisor, and
  \<^verbatim>\<open>vote.book.b_title\<close> raises when the book is \<^verbatim>\<open>None\<close>.
\<close>

definition truediv :: "int \<Rightarrow> int \<Rightarrow> exn + real" where
  "truediv a b = (if b = 0 then Inl ZeroDivisionError else Inr (real_of_int a / real_of_int b))"

definition percentage :: "int \<Rightarrow> int \<Rightarrow> exn + real" where
  "percentage number_vote total_votes =
     (if total_votes > 0
      then (case truediv number_vote total_votes of
              Inl e \<Rightarrow> Inl e
            | Inr q \<Rightarrow> Inr (q * 100))
      else Inr 0)"

record results_display =
  lines :: "(Vote \<times> real) list"
  winner :: "Vote option"

fun display_lines :: "Vote list \<Rightarrow> int \<Rightarrow> exn + (Vote \<times> real) list" where
  "display_lines [] total_votes = Inr []"
| "display_lines (vote # votes) total_votes =
     (case percentage (v_number_vote vote) total_votes of
        Inl e \<Rightarrow> Inl e
      | Inr p \<Rightarrow>
          (case v_book vote of
             None \<Rightarrow> Inl AttributeError
           | Some b \<Rightarrow>
               (case display_lines votes total_votes of
                  Inl e \<Rightarrow> Inl e
                | Inr ls \<Rightarrow> Inr ((vote, p) # ls))))"

definition display_final_results :: "db \<Rightarrow> (exn + results_display option) \<times> db" where
  "display_final_results \<sigma> =
     (let (votes, \<sigma>') = get_final_results \<sigma>
      in if votes = [] then (Inr None, \<sigma>')
         else (let total_votes = sum_list (map v_number_vote votes)
               in case display_lines votes total_votes of
                    Inl e \<Rightarrow> (Inl e, \<sigma>')
                  | Inr ls \<Rightarrow>
                      (Inr (Some \<lparr>lines = ls,
                                  winner = (case votes of [] \<Rightarrow> None | v # _ \<Rightarrow> Some v)\<rparr>),
                       \<sigma>')))"

definition get_available_books_for_selection :: "int \<Rightarrow> db \<Rightarrow> Book list \<times> db" where
  "get_available_books_for_selection round_number \<sigma> =
     (if round_number = 1 then BookDAO_read_all \<sigma>
      else if round_number = 2 then
        (case find_by_round 1 \<sigma> of
           (Some premiere, \<sigma>') \<Rightarrow> (book premiere, \<sigma>')
         | (None, \<sigma>') \<Rightarrow> ([], \<sigma>'))
      else if round_number = 3 then
        (case find_by_round 2 \<sigma> of
           (Some deuxieme, \<sigma>') \<Rightarrow> (book deuxieme, \<sigma>')
         | (None, \<sigma>') \<Rightarrow> ([], \<sigma>'))
      else ([], \<sigma>))"

record current_state =
  premiere_selection :: bool
  deuxieme_selection :: bool
  troisieme_selection :: bool
  final_selection :: bool
  votes_recorded :: bool

definition get_current_state :: "db \<Rightarrow> current_state \<times> db" where
  "get_current_state \<sigma> =
     (let (r1, \<sigma>1) = find_by_round 1 \<sigma>;
          (r2, \<sigma>2) = find_by_round 2 \<sigma>1;
          (r3, \<sigma>3) = find_by_round 3 \<sigma>2;
          (r4, \<sigma>4) = find_by_round 4 \<sigma>3;
          (votes, \<sigma>5) = VoteDAO_get_final_results \<sigma>4
      in (\<lparr>premiere_selection = (r1 \<noteq> None), deuxieme_selection = (r2 \<noteq> None),
           troisieme_selection = (r3 \<noteq> None), final_selection = (r4 \<noteq> None),
           votes_recorded = (length votes > 0)\<rparr>, \<sigma>5))"

section \<open>GoncourtApplication\<close>

text \<open>
  The two creation actions of the console, \<^verbatim>\<open>GoncourtApplication.create_deuxieme_selection\<close>
  and \<^verbatim>\<open>create_troisieme_selection\<close> of \<^verbatim>\<open>main.py\<close>, prefixed \<open>app_\<close>. What the operator
  types is an argument: \<open>replace\<close> is the lower-cased answer to the question asked when
  the round exists already, \<open>typed\<close> the list of indices that the comprehension
  \<^verbatim>\<open>[int(idx.strip()) - 1 for idx in selection_input.split(',')]\<close> yields, or \<open>None\<close> when
  it raises \<^verbatim>\<open>ValueError\<close>. The actions return nothing; the model returns the database.
  As in the service, the two actions are one text with different constants.
\<close>

definition app_create_selection ::
    "nat \<Rightarrow> int \<Rightarrow> (current_state \<Rightarrow> bool) \<Rightarrow> (current_state \<Rightarrow> bool) \<Rightarrow>
     (int list \<Rightarrow> db \<Rightarrow> bool \<times> db) \<Rightarrow> string \<Rightarrow> int list option \<Rightarrow> db \<Rightarrow> db" where
  "app_create_selection required round_number parent_exists exists_already create
       replace typed \<sigma> =
     (let (state, \<sigma>1) = get_current_state \<sigma>
      in if \<not> parent_exists state then \<sigma>1
         else if exists_already state \<and> replace \<noteq> ''o'' then \<sigma>1
         else (let (available_books, \<sigma>2) = get_available_books_for_selection round_number \<sigma>1
               in if available_books = [] then \<sigma>2
                  else case typed of
                      None \<Rightarrow> \<sigma>2
                    | Some indices \<Rightarrow>
                        if length indices \<noteq> required then \<sigma>2
                        else if list_ex (\<lambda>idx. idx < 0 \<or> idx \<ge> int (length available_books))
                                  indices
                        then \<sigma>2
                        else (let selected_book_ids =
                                    map (\<lambda>idx. b_id (available_books ! nat idx)) indices;
                                  (success, \<sigma>3) = create selected_book_ids \<sigma>2
                              in if success then snd (create_final_selection \<sigma>3) else \<sigma>3)))"

definition app_create_deuxieme_selection :: "string \<Rightarrow> int list option \<Rightarrow> db \<Rightarrow> db" where
  "app_create_deuxieme_selection =
     app_create_selection 8 2 premiere_selection deuxieme_selection create_deuxieme_selection"

definition app_create_troisieme_selection :: "string \<Rightarrow> int list option \<Rightarrow> db \<Rightarrow> db" where
  "app_create_troisieme_selection =
     app_create_selection 4 3 deuxieme_selection troisieme_selection create_troisieme_selection"

section \<open>Views of the tables\<close>

text \<open>
  What the queries return when no statement raises: the books attached to a selection,
  the row that \<^verbatim>\<open>find_by_round\<close> fetches, the selection it builds, and the content of
  \<^verbatim>\<open>book_selection\<close> after a run of \<^verbatim>\<open>add_book_to_selection\<close>.
\<close>

definition books_of :: "int \<Rightarrow> db \<Rightarrow> Book list" where
  "books_of selection_id \<sigma> =
     filter (\<lambda>b. (b_id b, selection_id) \<in> set (book_selection_tbl \<sigma>)) (book_tbl \<sigma>)"

definition round_row :: "int \<Rightarrow> db \<Rightarrow> selection_row option" where
  "round_row n \<sigma> = find (\<lambda>r. s_round r = n) (selection_tbl \<sigma>)"

definition selection_of :: "db \<Rightarrow> selection_row \<Rightarrow> Selection" where
  "selection_of \<sigma> r =
     \<lparr>s_id = s_id r, s_name = s_name r, s_round = s_round r, s_date = s_date r,
      book = books_of (s_id r) \<sigma>\<rparr>"

definition attach :: "int list \<Rightarrow> int \<Rightarrow> (int \<times> int) list \<Rightarrow> (int \<times> int) list" where
  "attach ids selection_id t =
     fold (\<lambda>i t. if (i, selection_id) \<in> set t then t else t @ [(i, selection_id)]) ids t"

definition append_votes ::
    "(int \<times> int) list \<Rightarrow> int \<Rightarrow> date \<Rightarrow> vote_row list \<Rightarrow> vote_row list" where
  "append_votes items selection_id vote_date t =
     fold (\<lambda>(book_id, vote_count) t.
             t @ [\<lparr>v_id = lastrowid (map v_id t), v_number_vote = vote_count,
                   v_date_vote = vote_date, v_b_id = book_id, v_s_id = selection_id\<rparr>])
          items t"

text \<open>
  The same for the votes: the \<^verbatim>\<open>Vote\<close> object built from a row of the join, the join of
  \<^verbatim>\<open>get_final_results\<close> before it is sorted, and the rows of \<^verbatim>\<open>vote\<close> that the join keeps,
  those whose book exists and whose selection is of round 4. \<open>content\<close> and
  \<open>row_content\<close> read the same five values off a \<^verbatim>\<open>Vote\<close> object and off a row.
\<close>

definition vote_of :: "db \<Rightarrow> vote_row \<times> Book \<times> selection_row \<Rightarrow> Vote" where
  "vote_of \<sigma> result = (case result of (v, b, s) \<Rightarrow>
     \<lparr>v_id = v_id v, v_number_vote = v_number_vote v, v_date_vote = v_date_vote v,
      v_book = find (\<lambda>b. b_id b = v_b_id v) (book_tbl \<sigma>),
      v_selection = \<lparr>s_id = s_id s, s_name = s_name s, s_round = s_round s,
                      s_date = s_date s, book = []\<rparr>\<rparr>)"

definition joined :: "db \<Rightarrow> (vote_row \<times> Book \<times> selection_row) list" where
  "joined \<sigma> = [(v, b, s). v \<leftarrow> vote_tbl \<sigma>, b \<leftarrow> book_tbl \<sigma>, b_id b = v_b_id v,
                   s \<leftarrow> selection_tbl \<sigma>, s_id s = v_s_id v, s_round s = 4]"

definition in_final :: "db \<Rightarrow> vote_row \<Rightarrow> bool" where
  "in_final \<sigma> v \<longleftrightarrow>
     list_ex (\<lambda>b. b_id b = v_b_id v) (book_tbl \<sigma>)
     \<and> list_ex (\<lambda>s. s_id s = v_s_id v \<and> s_round s = 4) (selection_tbl \<sigma>)"

definition content :: "Vote \<Rightarrow> int \<times> int \<times> date \<times> int option \<times> int" where
  "content w = (v_id w, v_number_vote w, v_date_vote w, map_option b_id (v_book w),
                s_id (v_selection w))"

definition row_content :: "vote_row \<Rightarrow> int \<times> int \<times> date \<times> int option \<times> int" where
  "row_content v = (v_id v, v_number_vote v, v_date_vote v, Some (v_b_id v), v_s_id v)"

text \<open>
  For the schedule of errors: \<open>quiet n\<close> says that none of the next \<open>n\<close> statements
  raises, \<open>skip n\<close> is the database once \<open>n\<close> statements have been issued without
  changing a table.
\<close>

definition quiet :: "nat \<Rightarrow> db \<Rightarrow> bool" where
  "quiet n \<sigma> \<longleftrightarrow> True \<notin> set (take n (faults \<sigma>))"

definition skip :: "nat \<Rightarrow> db \<Rightarrow> db" where
  "skip n \<sigma> = \<sigma>\<lparr>faults := drop n (faults \<sigma>)\<rparr>"

section \<open>A run of the workflow\<close>

text \<open>
  A catalogue of fifteen books, and the databases that the workflow goes through from
  it: round 1 at start-up, round 2 with books 1 to 8, round 3 with books 1 to 4, the
  final selection.
\<close>

definition catalogue_book :: "int \<Rightarrow> Book" where
  "catalogue_book i = \<lparr>b_id = i, isbn = ''978'', b_title = ''Livre''\<rparr>"

definition catalogue :: "Book list" where
  "catalogue = map catalogue_book [1, 2, 3, 4, 5, 6, 7, 8, 9, 10, 11, 12, 13, 14, 15]"

definition row1 :: selection_row where
  "row1 = \<lparr>s_id = 1, s_name = ''PREMIERE SELECTION'', s_round = 1, s_date = Some (2025, 9, 3)\<rparr>"

definition row2 :: selection_row where
  "row2 = \<lparr>s_id = 2, s_name = ''DEUXIEME SELECTION'', s_round = 2, s_date = Some (2025, 10, 7)\<rparr>"

definition row3 :: selection_row where
  "row3 = \<lparr>s_id = 3, s_name = ''TROISIEME SELECTION'', s_round = 3, s_date = Some (2025, 10, 28)\<rparr>"

definition row4 :: selection_row where
  "row4 = \<lparr>s_id = 4, s_name = ''FINALISTES DU PRIX GONCOURT'', s_round = 4,
           s_date = Some (2025, 11, 4)\<rparr>"

definition links1 :: "(int \<times> int) list" where
  "links1 = [(1, 1), (2, 1), (3, 1), (4, 1), (5, 1), (6, 1), (7, 1), (8, 1), (9, 1), (10, 1),
            (11, 1), (12, 1), (13, 1), (14, 1), (15, 1)]"

definition links2 :: "(int \<times> int) list" where
  "links2 = links1 @ [(1, 2), (2, 2), (3, 2), (4, 2), (5, 2), (6, 2), (7, 2), (8, 2)]"

definition links3 :: "(int \<times> int) list" where
  "links3 = links2 @ [(1, 3), (2, 3), (3, 3), (4, 3)]"

definition links4 :: "(int \<times> int) list" where
  "links4 = links3 @ [(1, 4), (2, 4), (3, 4), (4, 4)]"

definition db_start :: db where
  "db_start = \<lparr>faults = [], book_tbl = catalogue, selection_tbl = [],
               book_selection_tbl = [], vote_tbl = []\<rparr>"

definition db_round1 :: db where
  "db_round1 = \<lparr>faults = [], book_tbl = catalogue, selection_tbl = [row1],
                book_selection_tbl = links1, vote_tbl = []\<rparr>"

definition db_round2 :: db where
  "db_round2 = \<lparr>faults = [], book_tbl = catalogue, selection_tbl = [row1, row2],
                book_selection_tbl = links2, vote_tbl = []\<rparr>"

definition db_round3 :: db where
  "db_round3 = \<lparr>faults = [], book_tbl = catalogue, selection_tbl = [row1, row2, row3],
                book_selection_tbl = links3, vote_tbl = []\<rparr>"

definition db_final :: db where
  "db_final = \<lparr>faults = [], book_tbl = catalogue, selection_tbl = [row1, row2, row3, row4],
               book_selection_tbl = links4, vote_tbl = []\<rparr>"

text \<open>The database after the jury has given 1, 6, 0 and 3 votes to books 1 to 4.\<close>

definition votes1 :: "vote_row list" where
  "votes1 =
     [\<lparr>v_id = 1, v_number_vote = 1, v_date_vote = (2025, 11, 4), v_b_id = 1, v_s_id = 4\<rparr>,
      \<lparr>v_id = 2, v_number_vote = 6, v_date_vote = (2025, 11, 4), v_b_id = 2, v_s_id = 4\<rparr>,
      \<lparr>v_id = 3, v_number_vote = 0, v_date_vote = (2025, 11, 4), v_b_id = 3, v_s_id = 4\<rparr>,
      \<lparr>v_id = 4, v_number_vote = 3, v_date_vote = (2025, 11, 4), v_b_id = 4, v_s_id = 4\<rparr>]"

definition db_voted :: db where
  "db_voted = \<lparr>faults = [], book_tbl = catalogue, selection_tbl = [row1, row2, row3, row4],
               book_selection_tbl = links4, vote_tbl = votes1\<rparr>"

text \<open>What \<^verbatim>\<open>get_final_results\<close> returns then, best first.\<close>

definition final_vote :: "int \<Rightarrow> int \<Rightarrow> int \<Rightarrow> Vote" where
  "final_vote i n b =
     \<lparr>v_id = i, v_number_vote = n, v_date_vote = (2025, 11, 4), v_book = Some (catalogue_book b),
      v_selection = \<lparr>s_id = 4, s_name = ''FINALISTES DU PRIX GONCOURT'', s_round = 4,
                      s_date = Some (2025, 11, 4), book = []\<rparr>\<rparr>"

definition results1 :: "Vote list" where
  "results1 = [final_vote 2 6 2, final_vote 4 3 4, final_vote 1 1 1, final_vote 3 0 3]"

text \<open>
  The database of the run after round 3, with a schedule in which the fifth statement
  raises, and what \<^verbatim>\<open>create_final_selection\<close> leaves of it.
\<close>

definition db_fault :: db where
  "db_fault = \<lparr>faults = [False, False, False, False, True], book_tbl = catalogue,
               selection_tbl = [row1, row2, row3], book_selection_tbl = links3, vote_tbl = []\<rparr>"

definition db_fault_after :: db where
  "db_fault_after = \<lparr>faults = [], book_tbl = catalogue,
               selection_tbl = [row1, row2, row3, row4],
               book_selection_tbl = links3 @ [(2, 4), (3, 4), (4, 4)], vote_tbl = []\<rparr>"

text \<open>
  Other databases: round 2 after the identifiers 1, 1, 2, 3, 4, 5, 6, 7; a catalogue of
  two books; round 3 after the identifiers 1, 1, 2, 3; and the run continued by a second
  creation of round 3, with books 5 to 8, and a second creation of the final selection.
\<close>

definition db_round2_dup :: db where
  "db_round2_dup = \<lparr>faults = [], book_tbl = catalogue, selection_tbl = [row1, row2],
     book_selection_tbl = links1 @ [(1, 2), (2, 2), (3, 2), (4, 2), (5, 2), (6, 2), (7, 2)],
     vote_tbl = []\<rparr>"

definition db_two :: db where
  "db_two = \<lparr>faults = [], book_tbl = [catalogue_book 1, catalogue_book 2], selection_tbl = [],
     book_selection_tbl = [], vote_tbl = []\<rparr>"

definition db_round3_dup :: db where
  "db_round3_dup = \<lparr>faults = [], book_tbl = catalogue, selection_tbl = [row1, row2, row3],
     book_selection_tbl = links2 @ [(1, 3), (2, 3), (3, 3)], vote_tbl = []\<rparr>"

definition row5 :: selection_row where
  "row5 = \<lparr>s_id = 5, s_name = ''TROISIEME SELECTION'', s_round = 3, s_date = Some (2025, 10, 28)\<rparr>"

definition row6 :: selection_row where
  "row6 = \<lparr>s_id = 6, s_name = ''FINALISTES DU PRIX GONCOURT'', s_round = 4,
           s_date = Some (2025, 11, 4)\<rparr>"

definition db_again3 :: db where
  "db_again3 = \<lparr>faults = [], book_tbl = catalogue,
     selection_tbl = [row1, row2, row3, row4, row5],
     book_selection_tbl = links4 @ [(5, 5), (6, 5), (7, 5), (8, 5)], vote_tbl = []\<rparr>"

definition db_again4 :: db where
  "db_again4 = \<lparr>faults = [], book_tbl = catalogue,
     selection_tbl = [row1, row2, row3, row4, row5, row6],
     book_selection_tbl = links4 @ [(5, 5), (6, 5), (7, 5), (8, 5)] @ [(1, 6), (2, 6), (3, 6), (4, 6)],
     vote_tbl = []\<rparr>"

text \<open>The database with the votes, on which the fifth statement raises.\<close>

definition db_voted_fault :: db where
  "db_voted_fault = \<lparr>faults = [False, False, False, False, True], book_tbl = catalogue,
     selection_tbl = [row1, row2, row3, row4], book_selection_tbl = links4, vote_tbl = votes1\<rparr>"

text \<open>The same database, on which the third statement raises.\<close>

definition db_voted_read_fault :: db where
  "db_voted_read_fault = \<lparr>faults = [False, False, True], book_tbl = catalogue,
     selection_tbl = [row1, row2, row3, row4], book_selection_tbl = links4, vote_tbl = votes1\<rparr>"

section \<open>The queries and updates when no statement raises\<close>

lemma stmt_ok: "faults \<sigma> = [] \<Longrightarrow> stmt \<sigma> = (None, \<sigma>)"
  by (simp add: stmt_def)

lemma filter_case_find:
  "(case filter P xs of [] \<Rightarrow> a | x # _ \<Rightarrow> f x) =
   (case find P xs of None \<Rightarrow> a | Some x \<Rightarrow> f x)"
  by (induction xs) auto

lemma BookDAO_read_ok:
  "faults \<sigma> = [] \<Longrightarrow> BookDAO_read pk \<sigma> = (find (\<lambda>b. b_id b = pk) (book_tbl \<sigma>), \<sigma>)"
  by (simp add: BookDAO_read_def stmt_ok filter_case_find split: option.splits)

lemma BookDAO_read_all_ok:
  "faults \<sigma> = [] \<Longrightarrow> BookDAO_read_all \<sigma> = (book_tbl \<sigma>, \<sigma>)"
  by (simp add: BookDAO_read_all_def stmt_ok)

lemma get_books_by_selection_ok:
  "faults \<sigma> = [] \<Longrightarrow> get_books_by_selection sid \<sigma> = (books_of sid \<sigma>, \<sigma>)"
  by (simp add: get_books_by_selection_def stmt_ok books_of_def)

lemma find_by_round_ok:
  "faults \<sigma> = [] \<Longrightarrow>
   find_by_round n \<sigma> = (map_option (selection_of \<sigma>) (round_row n \<sigma>), \<sigma>)"
  by (simp add: find_by_round_def stmt_ok filter_case_find round_row_def selection_of_def
        create_selection_from_result_def get_books_by_selection_ok split: option.splits)

lemma add_book_to_selection_ok:
  "faults \<sigma> = [] \<Longrightarrow> snd (add_book_to_selection i sid \<sigma>) =
     \<sigma>\<lparr>book_selection_tbl := attach [i] sid (book_selection_tbl \<sigma>)\<rparr>"
  by (simp add: add_book_to_selection_def stmt_ok attach_def Let_def)

lemma attach_Cons: "attach (i # ids) sid t = attach ids sid (attach [i] sid t)"
  by (simp add: attach_def)

lemma add_books_ok:
  "faults \<sigma> = [] \<Longrightarrow> add_books bs sid \<sigma> =
     \<sigma>\<lparr>book_selection_tbl := attach (map b_id bs) sid (book_selection_tbl \<sigma>)\<rparr>"
proof (induction bs arbitrary: \<sigma>)
  case Nil
  then show ?case by (simp add: attach_def)
next
  case (Cons b bs)
  then show ?case
    by (simp add: add_book_to_selection_ok attach_Cons[of "b_id b" "map b_id bs"])
qed

lemma SelectionDAO_create_ok:
  "faults \<sigma> = [] \<Longrightarrow> SelectionDAO_create obj \<sigma> =
     (lastrowid (map s_id (selection_tbl \<sigma>)),
      \<sigma>\<lparr>selection_tbl := selection_tbl \<sigma> @
            [\<lparr>s_id = lastrowid (map s_id (selection_tbl \<sigma>)), s_name = s_name obj,
              s_round = s_round obj, s_date = s_date obj\<rparr>],
        book_selection_tbl := attach (map b_id (book obj))
            (lastrowid (map s_id (selection_tbl \<sigma>))) (book_selection_tbl \<sigma>)\<rparr>)"
  by (simp add: SelectionDAO_create_def stmt_ok Let_def add_books_ok)

lemma fold_max_ge: "(a::int) \<le> fold max ids a"
proof (induction ids arbitrary: a)
  case Nil
  show ?case by simp
next
  case (Cons j ids)
  have "a \<le> max j a" by simp
  also have "max j a \<le> fold max ids (max j a)" by (rule Cons.IH)
  finally show ?case by simp
qed

lemma fold_max_mem: "i \<in> set ids \<Longrightarrow> (i::int) \<le> fold max ids a"
proof (induction ids arbitrary: a)
  case Nil
  then show ?case by simp
next
  case (Cons j ids)
  show ?case
  proof (cases "i = j")
    case True
    have "max j a \<le> fold max ids (max j a)" by (rule fold_max_ge)
    with True show ?thesis by simp
  next
    case False
    with Cons show ?thesis by simp
  qed
qed

lemma lastrowid_pos: "0 < lastrowid ids"
  using fold_max_ge[of 0 ids] by (simp add: lastrowid_def)

lemma lastrowid_fresh: "i \<in> set ids \<Longrightarrow> i < lastrowid ids"
  using fold_max_mem[of i ids 0] by (simp add: lastrowid_def)

lemma insert_votes_ok:
  "faults \<sigma> = [] \<Longrightarrow> insert_votes items sid d \<sigma> =
     (None, \<sigma>\<lparr>vote_tbl := append_votes items sid d (vote_tbl \<sigma>)\<rparr>)"
proof (induction items arbitrary: \<sigma>)
  case Nil
  then show ?case by (simp add: append_votes_def)
next
  case (Cons item items)
  obtain b c where item: "item = (b, c)" by (cases item)
  from Cons show ?case
    by (simp add: item stmt_ok append_votes_def)
qed

lemma VoteDAO_record_final_votes_ok:
  "faults \<sigma> = [] \<Longrightarrow> VoteDAO_record_final_votes votes_data sid d \<sigma> =
     (True, \<sigma>\<lparr>vote_tbl := append_votes votes_data sid d
                   (filter (\<lambda>v. v_s_id v \<noteq> sid) (vote_tbl \<sigma>))\<rparr>)"
  by (simp add: VoteDAO_record_final_votes_def stmt_ok insert_votes_ok Let_def)

lemma record_final_votes_ok:
  "faults \<sigma> = [] \<Longrightarrow> record_final_votes votes_data today \<sigma> =
     (case round_row 4 \<sigma> of
        None \<Rightarrow> (False, \<sigma>)
      | Some r \<Rightarrow>
          if \<not> list_all (\<lambda>k. k \<in> b_id ` set (books_of (s_id r) \<sigma>)) (map fst votes_data)
          then (False, \<sigma>)
          else if sum_list (map snd votes_data) \<noteq> 10 then (False, \<sigma>)
          else (True, \<sigma>\<lparr>vote_tbl := append_votes votes_data (s_id r) today
                           (filter (\<lambda>v. v_s_id v \<noteq> s_id r) (vote_tbl \<sigma>))\<rparr>))"
  by (simp add: record_final_votes_def find_by_round_ok VoteDAO_record_final_votes_ok
        selection_of_def Let_def split: option.splits)

section \<open>The run\<close>

lemmas run_defs = db_start_def db_round1_def db_round2_def db_round3_def db_final_def
  catalogue_def catalogue_book_def row1_def row2_def row3_def row4_def
  links1_def links2_def links3_def links4_def
  round_row_def books_of_def lastrowid_def attach_def append_votes_def selection_of_def

lemma run_round1: "initialize_first_selection db_start = db_round1"
  by (simp add: initialize_first_selection_def find_by_round_ok BookDAO_read_all_ok
        SelectionDAO_create_ok run_defs)

lemma read_books_ok:
  "faults \<sigma> = [] \<Longrightarrow>
   read_books ids \<sigma> = (those (map (\<lambda>i. find (\<lambda>b. b_id b = i) (book_tbl \<sigma>)) ids), \<sigma>)"
  by (induction ids) (simp_all add: BookDAO_read_ok split: option.splits)

lemma create_selection_from_ok:
  "faults \<sigma> = [] \<Longrightarrow> create_selection_from k prev name rnd day ids \<sigma> =
     (if length ids \<noteq> k then (False, \<sigma>)
      else case those (map (\<lambda>i. find (\<lambda>b. b_id b = i) (book_tbl \<sigma>)) ids) of
          None \<Rightarrow> (False, \<sigma>)
        | Some books \<Rightarrow>
            (case round_row prev \<sigma> of
               None \<Rightarrow> (False, \<sigma>)
             | Some r \<Rightarrow>
                 if \<not> list_all (\<lambda>i. i \<in> b_id ` set (books_of (s_id r) \<sigma>)) ids
                 then (False, \<sigma>)
                 else (True,
                   \<sigma>\<lparr>selection_tbl := selection_tbl \<sigma> @
                        [\<lparr>s_id = lastrowid (map s_id (selection_tbl \<sigma>)), s_name = name,
                          s_round = rnd, s_date = Some day\<rparr>],
                     book_selection_tbl := attach (map b_id books)
                        (lastrowid (map s_id (selection_tbl \<sigma>))) (book_selection_tbl \<sigma>)\<rparr>)))"
  using lastrowid_pos[of "map s_id (selection_tbl \<sigma>)"]
  by (simp add: create_selection_from_def read_books_ok find_by_round_ok SelectionDAO_create_ok
        selection_of_def Let_def split: option.splits)

lemma create_final_selection_ok:
  "faults \<sigma> = [] \<Longrightarrow> create_final_selection \<sigma> =
     (case round_row 3 \<sigma> of
        None \<Rightarrow> (False, \<sigma>)
      | Some r \<Rightarrow>
          if length (books_of (s_id r) \<sigma>) \<noteq> 4 then (False, \<sigma>)
          else (True,
            \<sigma>\<lparr>selection_tbl := selection_tbl \<sigma> @
                 [\<lparr>s_id = lastrowid (map s_id (selection_tbl \<sigma>)),
                   s_name = ''FINALISTES DU PRIX GONCOURT'', s_round = 4,
                   s_date = Some (2025, 11, 4)\<rparr>],
              book_selection_tbl := attach (map b_id (books_of (s_id r) \<sigma>))
                 (lastrowid (map s_id (selection_tbl \<sigma>))) (book_selection_tbl \<sigma>)\<rparr>))"
  using lastrowid_pos[of "map s_id (selection_tbl \<sigma>)"]
  by (simp add: create_final_selection_def find_by_round_ok SelectionDAO_create_ok
        selection_of_def Let_def split: option.splits)

lemma run_round2:
  "create_deuxieme_selection [1, 2, 3, 4, 5, 6, 7, 8] db_round1 = (True, db_round2)"
  by (simp add: create_deuxieme_selection_def create_selection_from_ok run_defs)

lemma run_round3: "create_troisieme_selection [1, 2, 3, 4] db_round2 = (True, db_round3)"
  by (simp add: create_troisieme_selection_def create_selection_from_ok run_defs)

lemma run_final: "create_final_selection db_round3 = (True, db_final)"
  by (simp add: create_final_selection_ok run_defs)

lemma run_votes:
  "record_final_votes [(1, 1), (2, 6), (3, 0), (4, 3)] (2025, 11, 4) db_final = (True, db_voted)"
  by (simp add: record_final_votes_ok run_defs db_voted_def votes1_def)

section \<open>The first selection\<close>

lemma set_attach: "set (attach ids sid t) = set t \<union> (\<lambda>i. (i, sid)) ` set ids"
  by (induction ids arbitrary: t) (auto simp: attach_def)

lemma find_append:
  "find P (xs @ ys) = (case find P xs of None \<Rightarrow> find P ys | Some x \<Rightarrow> Some x)"
  by (induction xs) auto

lemma initialize_first_selection_ok:
  "faults \<sigma> = [] \<Longrightarrow> initialize_first_selection \<sigma> =
     (case round_row 1 \<sigma> of
        Some r \<Rightarrow> \<sigma>
      | None \<Rightarrow>
          \<sigma>\<lparr>selection_tbl := selection_tbl \<sigma> @
               [\<lparr>s_id = lastrowid (map s_id (selection_tbl \<sigma>)),
                 s_name = ''PREMIERE SELECTION'', s_round = 1, s_date = Some (2025, 9, 3)\<rparr>],
            book_selection_tbl := attach (map b_id (book_tbl \<sigma>))
               (lastrowid (map s_id (selection_tbl \<sigma>))) (book_selection_tbl \<sigma>)\<rparr>)"
  by (simp add: initialize_first_selection_def find_by_round_ok BookDAO_read_all_ok
        SelectionDAO_create_ok split: option.splits)

text \<open>
  Claim C8. \<^verbatim>\<open>_initialize_first_selection\<close> is idempotent. When no statement raises: if
  the first selection exists the call leaves the database as it is; if it does not, the
  call creates it with all the books of the catalogue; and a second call changes
  nothing. The function returns nothing in either case, so neither is an error.
\<close>

theorem initialize_first_selection_idempotent:
  assumes "faults \<sigma> = []"
  shows "(fst (find_by_round 1 \<sigma>) \<noteq> None \<longrightarrow> initialize_first_selection \<sigma> = \<sigma>)
       \<and> (fst (find_by_round 1 \<sigma>) = None \<longrightarrow>
            (\<exists>premiere. fst (find_by_round 1 (initialize_first_selection \<sigma>)) = Some premiere
               \<and> book premiere = book_tbl \<sigma>))
       \<and> initialize_first_selection (initialize_first_selection \<sigma>) = initialize_first_selection \<sigma>"
proof -
  let ?\<sigma>' = "initialize_first_selection \<sigma>"
  have f': "faults ?\<sigma>' = []"
    using assms by (simp add: initialize_first_selection_ok split: option.splits)
  have a: "fst (find_by_round 1 \<sigma>) \<noteq> None \<longrightarrow> ?\<sigma>' = \<sigma>"
    using assms by (auto simp: initialize_first_selection_ok find_by_round_ok)
  have b: "\<exists>premiere. fst (find_by_round 1 ?\<sigma>') = Some premiere \<and> book premiere = book_tbl \<sigma>"
    if none: "fst (find_by_round 1 \<sigma>) = None"
  proof -
    from none assms have rr: "round_row 1 \<sigma> = None"
      by (simp add: find_by_round_ok)
    have all: "filter (\<lambda>b. (b_id b, k) \<in> set t \<or> (\<exists>x\<in>set (book_tbl \<sigma>). b_id b = b_id x))
                 (book_tbl \<sigma>) = book_tbl \<sigma>" for k t
      by (rule filter_True) blast
    show ?thesis
      using assms rr f'
      by (simp add: find_by_round_ok initialize_first_selection_ok round_row_def find_append
            selection_of_def books_of_def set_attach image_iff all)
  qed
  have c: "fst (find_by_round 1 ?\<sigma>') \<noteq> None"
  proof (cases "fst (find_by_round 1 \<sigma>)")
    case None
    from b[OF None] show ?thesis by auto
  next
    case (Some s)
    with a show ?thesis by simp
  qed
  have "initialize_first_selection ?\<sigma>' = ?\<sigma>'"
    using c f' by (auto simp: initialize_first_selection_ok find_by_round_ok)
  with a b show ?thesis by blast
qed

theorem initialize_first_selection_idempotent_witness:
  "faults db_start = []
   \<and> initialize_first_selection db_start = db_round1
   \<and> initialize_first_selection db_round1 = db_round1
   \<and> map_option book (fst (find_by_round 1 db_round1)) = Some catalogue"
proof -
  have h: "faults db_start = []" by (simp add: db_start_def)
  have n: "fst (find_by_round 1 db_start) = None"
    by (simp add: find_by_round_ok h) (simp add: run_defs)
  from initialize_first_selection_idempotent[OF h] n run_round1 h show ?thesis
    by (auto simp: db_start_def)
qed

section \<open>Creating the second and the third selection\<close>





section \<open>Recording the votes\<close>

lemma append_votes_same:
  "map (\<lambda>v. (v_b_id v, v_number_vote v)) (filter (\<lambda>v. v_s_id v = sid) (append_votes items sid d t)) =
   map (\<lambda>v. (v_b_id v, v_number_vote v)) (filter (\<lambda>v. v_s_id v = sid) t) @ items"
  by (induction items arbitrary: t) (auto simp: append_votes_def)

lemma append_votes_others:
  "filter (\<lambda>v. v_s_id v \<noteq> sid) (append_votes items sid d t) = filter (\<lambda>v. v_s_id v \<noteq> sid) t"
  by (induction items arbitrary: t) (auto simp: append_votes_def)

text \<open>
  Claim C1, as stated, fails: the keys of the dictionary need not be all the finalists.
  On the database of the run, \<^verbatim>\<open>{1: 10}\<close> is accepted, although the final selection
  holds books 1 to 4. The loop of \<^verbatim>\<open>record_final_votes\<close> checks that each key is a book of
  the final selection, and nothing checks that each finalist is a key.
\<close>

theorem record_final_votes_key_subset_counterexample:
  "fst (record_final_votes [(1, 10)] (2025, 11, 4) db_final)
   \<and> map_option (\<lambda>f. map b_id (book f)) (fst (find_by_round 4 db_final)) = Some [1, 2, 3, 4]
   \<and> set (map fst [(1 :: int, 10 :: int)]) \<noteq> {1, 2, 3, 4}"
  by (simp add: record_final_votes_ok find_by_round_ok run_defs)

text \<open>
  Claim C1, amended. When no statement raises, \<^verbatim>\<open>record_final_votes\<close> returns \<^verbatim>\<open>True\<close>
  exactly when the final selection exists, every key of the dictionary is a book of it,
  and the values sum to 10. When it returns \<^verbatim>\<open>False\<close> the database is unchanged. When it
  returns \<^verbatim>\<open>True\<close>, the votes of the final selection are exactly the items of the
  dictionary, in its order, the votes of any other selection are the same as before,
  and no other table has changed.
\<close>

theorem record_final_votes_subset_iff:
  assumes "faults \<sigma> = []"
  shows "(fst (record_final_votes votes_data today \<sigma>) \<longleftrightarrow>
            (\<exists>finale. fst (find_by_round 4 \<sigma>) = Some finale
               \<and> set (map fst votes_data) \<subseteq> b_id ` set (book finale)
               \<and> sum_list (map snd votes_data) = 10))
       \<and> (\<not> fst (record_final_votes votes_data today \<sigma>) \<longrightarrow>
            snd (record_final_votes votes_data today \<sigma>) = \<sigma>)
       \<and> (\<forall>finale. fst (record_final_votes votes_data today \<sigma>) \<longrightarrow>
            fst (find_by_round 4 \<sigma>) = Some finale \<longrightarrow>
              map (\<lambda>v. (v_b_id v, v_number_vote v))
                  (filter (\<lambda>v. v_s_id v = s_id finale)
                     (vote_tbl (snd (record_final_votes votes_data today \<sigma>)))) = votes_data
              \<and> filter (\<lambda>v. v_s_id v \<noteq> s_id finale)
                     (vote_tbl (snd (record_final_votes votes_data today \<sigma>)))
                  = filter (\<lambda>v. v_s_id v \<noteq> s_id finale) (vote_tbl \<sigma>)
              \<and> (snd (record_final_votes votes_data today \<sigma>))\<lparr>vote_tbl := vote_tbl \<sigma>\<rparr> = \<sigma>)"
proof (cases "round_row 4 \<sigma>")
  case None
  with assms show ?thesis
    by (simp add: record_final_votes_ok find_by_round_ok)
next
  case (Some r)
  have nothing: "filter (\<lambda>v. v_s_id v = s_id r) (filter (\<lambda>v. v_s_id v \<noteq> s_id r) (vote_tbl \<sigma>)) = []"
    by (simp add: filter_empty_conv)
  from assms Some show ?thesis
    by (auto simp: record_final_votes_ok find_by_round_ok selection_of_def list_all_iff
          append_votes_same append_votes_others nothing)
qed

theorem record_final_votes_subset_iff_witness:
  "faults db_final = []
   \<and> record_final_votes [(1, 1), (2, 6), (3, 0), (4, 3)] (2025, 11, 4) db_final = (True, db_voted)
   \<and> map (\<lambda>v. (v_b_id v, v_number_vote v)) (filter (\<lambda>v. v_s_id v = 4) (vote_tbl db_voted))
        = [(1, 1), (2, 6), (3, 0), (4, 3)]
   \<and> \<not> fst (record_final_votes [(1, 5), (2, 5), (3, 0), (4, 1)] (2025, 11, 4) db_final)
   \<and> snd (record_final_votes [(1, 5), (2, 5), (3, 0), (4, 1)] (2025, 11, 4) db_final) = db_final"
proof -
  have h: "faults db_final = []" by (simp add: db_final_def)
  have f4: "fst (find_by_round 4 db_final) = Some (selection_of db_final row4)"
    by (simp add: find_by_round_ok h) (simp add: run_defs)
  have id4: "s_id (selection_of db_final row4) = 4"
    by (simp add: selection_of_def row4_def)
  have bad: "\<not> fst (record_final_votes [(1, 5), (2, 5), (3, 0), (4, 1)] (2025, 11, 4) db_final)"
    using record_final_votes_subset_iff[OF h, of "[(1, 5), (2, 5), (3, 0), (4, 1)]" "(2025, 11, 4)"]
    by simp
  from record_final_votes_subset_iff[OF h, of "[(1, 5), (2, 5), (3, 0), (4, 1)]" "(2025, 11, 4)"] bad
  have same: "snd (record_final_votes [(1, 5), (2, 5), (3, 0), (4, 1)] (2025, 11, 4) db_final) = db_final"
    by blast
  from record_final_votes_subset_iff[OF h, of "[(1, 1), (2, 6), (3, 0), (4, 3)]" "(2025, 11, 4)"]
    f4 id4 run_votes h bad same
  show ?thesis by simp
qed

text \<open>
  Claim C10. \<^verbatim>\<open>record_final_votes\<close> does not check the sign of a vote count. On the
  database of the run, whose final selection holds books 1 to 4, the dictionary
  \<^verbatim>\<open>{1: 12, 2: -2, 3: 0, 4: 0}\<close> has the finalists as keys and values that sum to 10;
  the operation returns \<^verbatim>\<open>True\<close> and the table of votes then holds a row with -2 votes.
\<close>

theorem record_final_votes_stores_negative_count:
  "map_option (\<lambda>f. map b_id (book f)) (fst (find_by_round 4 db_final)) = Some [1, 2, 3, 4]
   \<and> sum_list (map snd [(1, 12), (2, - 2), (3, 0), (4, 0 :: int)]) = (10 :: int)
   \<and> fst (record_final_votes [(1, 12), (2, - 2), (3, 0), (4, 0)] (2025, 11, 4) db_final)
   \<and> map (\<lambda>v. (v_b_id v, v_number_vote v))
        (vote_tbl (snd (record_final_votes [(1, 12), (2, - 2), (3, 0), (4, 0)]
                          (2025, 11, 4) db_final)))
       = [(1, 12), (2, - 2), (3, 0), (4, 0)]"
  by (simp add: record_final_votes_ok find_by_round_ok run_defs)

section \<open>The results\<close>

lemma create_votes_ok:
  "faults \<sigma> = [] \<Longrightarrow> create_votes results \<sigma> = (map (vote_of \<sigma>) results, \<sigma>)"
  by (induction results)
     (simp_all add: create_vote_from_result_def BookDAO_read_ok vote_of_def split: prod.splits)

lemma get_final_results_ok:
  "faults \<sigma> = [] \<Longrightarrow> get_final_results \<sigma> = (map (vote_of \<sigma>) (final_rows \<sigma>), \<sigma>)"
  by (simp add: get_final_results_def VoteDAO_get_final_results_def stmt_ok create_votes_ok)

lemma final_rows_joined: "final_rows \<sigma> = sort_key (\<lambda>(v, b, s). - v_number_vote v) (joined \<sigma>)"
  by (simp add: final_rows_def joined_def)

lemma sorted_final_rows:
  "sorted_wrt (\<lambda>x y. v_number_vote y \<le> v_number_vote x) (map (vote_of \<sigma>) (final_rows \<sigma>))"
proof -
  have "sorted (map (\<lambda>(v, b, s). - v_number_vote v) (final_rows \<sigma>))"
    unfolding final_rows_joined by (rule sorted_sort_key)
  then have "sorted_wrt (\<lambda>x y. - v_number_vote (vote_of \<sigma> x) \<le> - v_number_vote (vote_of \<sigma> y))
               (final_rows \<sigma>)"
    by (simp add: sorted_wrt_map sorted_map vote_of_def case_prod_beta)
  then show ?thesis
    by (simp add: sorted_wrt_map)
qed

lemma concat_unique:
  "distinct (map k xs) \<Longrightarrow>
   concat (map (\<lambda>x. if k x = a then g x else []) xs) =
     (case find (\<lambda>x. k x = a) xs of None \<Rightarrow> [] | Some x \<Rightarrow> g x)"
proof (induction xs)
  case Nil
  show ?case by simp
next
  case (Cons x xs)
  show ?case
  proof (cases "k x = a")
    case True
    with Cons.prems have "\<forall>y\<in>set xs. k y \<noteq> a" by (auto simp: image_iff)
    then have "concat (map (\<lambda>x. if k x = a then g x else []) xs) = []"
      by (induction xs) auto
    with True show ?thesis by simp
  next
    case False
    with Cons show ?thesis by simp
  qed
qed

lemma find_None_list_ex: "find P xs = None \<longleftrightarrow> \<not> list_ex P xs"
  by (induction xs) auto

lemma find_Some_P: "find P xs = Some x \<Longrightarrow> P x"
  by (induction xs) (auto split: if_splits)

lemma joined_contents:
  assumes "distinct (map b_id (book_tbl \<sigma>))" and "distinct (map s_id (selection_tbl \<sigma>))"
  shows "map (\<lambda>r. content (vote_of \<sigma> r)) (joined \<sigma>) =
         map row_content (filter (in_final \<sigma>) (vote_tbl \<sigma>))"
proof -
  have sel: "concat (map (\<lambda>s. if s_id s = a then if s_round s = 4 then [(v, b, s)] else [] else [])
                      (selection_tbl \<sigma>)) =
             (case find (\<lambda>s. s_id s = a) (selection_tbl \<sigma>) of
                None \<Rightarrow> []
              | Some s \<Rightarrow> if s_round s = 4 then [(v, b, s)] else [])" for a v b
    by (rule concat_unique[OF assms(2)])
  have one: "map (\<lambda>r. content (vote_of \<sigma> r))
               (concat (map (\<lambda>b. if b_id b = v_b_id v
                                  then concat (map (\<lambda>s. if s_id s = v_s_id v
                                                         then if s_round s = 4 then [(v, b, s)] else []
                                                         else [])
                                             (selection_tbl \<sigma>))
                                  else []) (book_tbl \<sigma>))) =
             (if in_final \<sigma> v then [row_content v] else [])" for v
  proof (cases "find (\<lambda>b. b_id b = v_b_id v) (book_tbl \<sigma>)")
    case None
    then have "\<not> list_ex (\<lambda>b. b_id b = v_b_id v) (book_tbl \<sigma>)"
      using find_None_list_ex[of "\<lambda>b. b_id b = v_b_id v" "book_tbl \<sigma>"] by simp
    with None show ?thesis
      by (simp add: concat_unique[OF assms(1)] in_final_def)
  next
    case (Some b)
    note b = this
    then have lb: "list_ex (\<lambda>b. b_id b = v_b_id v) (book_tbl \<sigma>)"
      using find_None_list_ex[of "\<lambda>b. b_id b = v_b_id v" "book_tbl \<sigma>"] by simp
    show ?thesis
    proof (cases "find (\<lambda>s. s_id s = v_s_id v) (selection_tbl \<sigma>)")
      case None
      then have "\<not> list_ex (\<lambda>s. s_id s = v_s_id v \<and> s_round s = 4) (selection_tbl \<sigma>)"
        by (auto simp: find_None_list_ex list_ex_iff)
      with None b show ?thesis
        by (simp add: concat_unique[OF assms(1)] sel in_final_def)
    next
      case (Some s)
      note s = this
      have ids: "s_id s = v_s_id v" using find_Some_P[OF s] .
      have uniq: "s' \<in> set (selection_tbl \<sigma>) \<Longrightarrow> s_id s' = v_s_id v \<Longrightarrow> s' = s" for s'
        using assms(2) s ids
        by (metis (mono_tags, lifting) distinct_map find_Some_iff inj_onD nth_mem)
      have ex: "list_ex (\<lambda>s. s_id s = v_s_id v \<and> s_round s = 4) (selection_tbl \<sigma>)
                  \<longleftrightarrow> s_round s = 4"
        using uniq s ids by (auto simp: list_ex_iff find_Some_iff)
      show ?thesis
        using b s lb ex ids find_Some_P[OF b]
        by (simp add: concat_unique[OF assms(1)] sel in_final_def content_def vote_of_def
              row_content_def)
    qed
  qed
  have gen: "map (\<lambda>r. content (vote_of \<sigma> r))
               (concat (map (\<lambda>v. concat (map (\<lambda>b. if b_id b = v_b_id v
                                  then concat (map (\<lambda>s. if s_id s = v_s_id v
                                                         then if s_round s = 4 then [(v, b, s)] else []
                                                         else [])
                                             (selection_tbl \<sigma>))
                                  else []) (book_tbl \<sigma>))) vs)) =
             map row_content (filter (in_final \<sigma>) vs)" for vs
  proof (induction vs)
    case Nil
    show ?case by simp
  next
    case (Cons v vs)
    show ?case
      unfolding list.map concat.simps map_append one Cons.IH by simp
  qed
  show ?thesis
    unfolding joined_def by (rule gen)
qed

text \<open>
  Claim C6. When no statement raises, \<^verbatim>\<open>get_final_results\<close> returns the votes in
  descending order of their count; with \<^verbatim>\<open>b_id\<close> and \<^verbatim>\<open>s_id\<close> primary keys, it returns each
  vote of a round-4 selection exactly once and nothing else; and it returns the empty
  list while the table of votes is empty.
\<close>

theorem get_final_results_sorted_complete:
  assumes "faults \<sigma> = []"
    and "distinct (map b_id (book_tbl \<sigma>))" and "distinct (map s_id (selection_tbl \<sigma>))"
  shows "sorted_wrt (\<lambda>x y. v_number_vote y \<le> v_number_vote x) (fst (get_final_results \<sigma>))
       \<and> mset (map content (fst (get_final_results \<sigma>))) =
           mset (map row_content (filter (in_final \<sigma>) (vote_tbl \<sigma>)))
       \<and> (vote_tbl \<sigma> = [] \<longrightarrow> fst (get_final_results \<sigma>) = [])"
proof -
  have "mset (map content (map (vote_of \<sigma>) (final_rows \<sigma>))) =
        mset (map (\<lambda>r. content (vote_of \<sigma> r)) (joined \<sigma>))"
    by (simp add: final_rows_joined comp_def)
  also have "\<dots> = mset (map row_content (filter (in_final \<sigma>) (vote_tbl \<sigma>)))"
    by (simp only: joined_contents[OF assms(2,3)])
  finally have m: "mset (map content (map (vote_of \<sigma>) (final_rows \<sigma>))) =
        mset (map row_content (filter (in_final \<sigma>) (vote_tbl \<sigma>)))" .
  have e: "vote_tbl \<sigma> = [] \<longrightarrow> final_rows \<sigma> = []"
    by (simp add: final_rows_def)
  from m e sorted_final_rows[of \<sigma>] show ?thesis
    by (simp add: get_final_results_ok[OF assms(1)])
qed

theorem get_final_results_sorted_complete_witness:
  "faults db_voted = []
   \<and> distinct (map b_id (book_tbl db_voted)) \<and> distinct (map s_id (selection_tbl db_voted))
   \<and> map (\<lambda>w. (map_option b_id (v_book w), v_number_vote w)) (fst (get_final_results db_voted))
       = [(Some 2, 6), (Some 4, 3), (Some 1, 1), (Some 3, 0)]
   \<and> sorted_wrt (\<lambda>x y. v_number_vote y \<le> v_number_vote x) (fst (get_final_results db_voted))
   \<and> size (mset (map content (fst (get_final_results db_voted)))) = 4"
proof -
  have h1: "faults db_voted = []" by (simp add: db_voted_def)
  have h2: "distinct (map b_id (book_tbl db_voted))" by (simp add: db_voted_def run_defs)
  have h3: "distinct (map s_id (selection_tbl db_voted))" by (simp add: db_voted_def run_defs)
  have ev: "map (\<lambda>w. (map_option b_id (v_book w), v_number_vote w)) (fst (get_final_results db_voted))
       = [(Some 2, 6), (Some 4, 3), (Some 1, 1), (Some 3, 0)]"
    by (simp add: get_final_results_ok h1)
       (simp add: final_rows_def vote_of_def db_voted_def votes1_def run_defs)
  have fl: "filter (in_final db_voted) (vote_tbl db_voted) = votes1"
    by (simp add: in_final_def db_voted_def votes1_def run_defs)
  from get_final_results_sorted_complete[OF h1 h2 h3] ev fl h1 h2 h3 show ?thesis
    by (simp add: votes1_def)
qed

section \<open>The display of the results\<close>

lemma percentage_eq:
  "percentage n total_votes =
     Inr (if 0 < total_votes then real_of_int n / real_of_int total_votes * 100 else 0)"
  by (simp add: percentage_def truediv_def)

lemma display_lines_ok:
  "\<forall>w\<in>set votes. v_book w \<noteq> None \<Longrightarrow>
   display_lines votes total_votes =
     Inr (map (\<lambda>w. (w, if 0 < total_votes then real_of_int (v_number_vote w) / real_of_int total_votes * 100
                        else 0)) votes)"
  by (induction votes) (auto simp: percentage_eq)

lemma joined_book: "(v, b, s) \<in> set (joined \<sigma>) \<Longrightarrow> b \<in> set (book_tbl \<sigma>) \<and> b_id b = v_b_id v"
  by (auto simp: joined_def split: if_splits)

lemma find_Some_ex: "x \<in> set xs \<Longrightarrow> P x \<Longrightarrow> find P xs \<noteq> None"
  by (induction xs) auto

lemma results_have_book:
  assumes "faults \<sigma> = []" and "w \<in> set (fst (get_final_results \<sigma>))"
  shows "v_book w \<noteq> None"
proof -
  from assms obtain r where r: "r \<in> set (joined \<sigma>)" and w: "w = vote_of \<sigma> r"
    by (auto simp: get_final_results_ok final_rows_joined)
  obtain v b s where rv: "r = (v, b, s)" by (cases r)
  from joined_book[of v b s \<sigma>] r rv have "b \<in> set (book_tbl \<sigma>)" "b_id b = v_b_id v" by auto
  then have "find (\<lambda>b. b_id b = v_b_id v) (book_tbl \<sigma>) \<noteq> None"
    by (rule find_Some_ex)
  with w rv show ?thesis by (simp add: vote_of_def)
qed

lemma run_results: "get_final_results db_voted = (results1, db_voted)"
proof -
  have h: "faults db_voted = []" by (simp add: db_voted_def)
  show ?thesis
    by (simp add: get_final_results_ok h)
       (simp add: final_rows_def vote_of_def db_voted_def votes1_def results1_def final_vote_def
          run_defs)
qed

text \<open>
  Claim C7. When no statement raises and the total of the counts is not negative,
  \<^verbatim>\<open>display_final_results\<close> shows nothing when \<^verbatim>\<open>get_final_results\<close> is empty, and else shows
  the first vote of \<^verbatim>\<open>get_final_results\<close> as the winner and, for each vote, the percentage
  count / total * 100, which is 0 when the total is 0. The division never raises
  \<^verbatim>\<open>ZeroDivisionError\<close>, whatever the total. Percentages are exact quotients here,
  floats in the source.
\<close>

theorem display_final_results_winner_percentage:
  assumes "faults \<sigma> = []" and "fst (get_final_results \<sigma>) = votes"
    and "0 \<le> sum_list (map v_number_vote votes)"
  shows "fst (display_final_results \<sigma>) =
           Inr (case votes of
                  [] \<Rightarrow> None
                | first # others \<Rightarrow>
                    Some \<lparr>lines = map (\<lambda>w. (w, if sum_list (map v_number_vote votes) = 0 then 0
                                             else real_of_int (v_number_vote w) /
                                                  real_of_int (sum_list (map v_number_vote votes)) * 100))
                                      votes,
                          winner = Some first\<rparr>)
       \<and> percentage n 0 = Inr 0
       \<and> percentage n total_votes \<noteq> Inl ZeroDivisionError"
proof -
  have bk: "\<forall>w\<in>set votes. v_book w \<noteq> None"
    using results_have_book[OF assms(1)] assms(2) by auto
  have st: "get_final_results \<sigma> = (votes, \<sigma>)"
    using assms(1,2) by (simp add: get_final_results_ok)
  define T where "T = sum_list (map v_number_vote votes)"
  have pos: "0 < T \<longleftrightarrow> T \<noteq> 0"
    using assms(3) by (auto simp: T_def)
  have d: "display_final_results \<sigma> =
     (if votes = [] then (Inr None, \<sigma>)
      else (Inr (Some \<lparr>lines = map (\<lambda>w. (w, if T = 0 then 0
                                             else real_of_int (v_number_vote w) / real_of_int T * 100))
                                    votes,
                        winner = (case votes of [] \<Rightarrow> None | v # _ \<Rightarrow> Some v)\<rparr>), \<sigma>))"
    by (simp add: display_final_results_def st display_lines_ok[OF bk] pos flip: T_def)
  have "fst (display_final_results \<sigma>) =
           Inr (case votes of
                  [] \<Rightarrow> None
                | first # others \<Rightarrow>
                    Some \<lparr>lines = map (\<lambda>w. (w, if T = 0 then 0
                                             else real_of_int (v_number_vote w) / real_of_int T * 100))
                                      votes,
                          winner = Some first\<rparr>)"
    unfolding d by (cases votes) simp_all
  then show ?thesis
    unfolding T_def by (simp add: percentage_eq)
qed

theorem display_final_results_winner_percentage_witness:
  "faults db_voted = []
   \<and> fst (get_final_results db_voted) = results1
   \<and> 0 \<le> sum_list (map v_number_vote results1)
   \<and> fst (display_final_results db_voted) =
       Inr (Some \<lparr>lines = [(final_vote 2 6 2, 60), (final_vote 4 3 4, 30),
                            (final_vote 1 1 1, 10), (final_vote 3 0 3, 0)],
                   winner = Some (final_vote 2 6 2)\<rparr>)"
proof -
  have h1: "faults db_voted = []" by (simp add: db_voted_def)
  have h2: "fst (get_final_results db_voted) = results1" by (simp add: run_results)
  have h3: "0 \<le> sum_list (map v_number_vote results1)"
    by (simp add: results1_def final_vote_def)
  from display_final_results_winner_percentage[OF h1 h2 h3] h1 h2 h3 show ?thesis
    by (simp add: results1_def) (simp add: final_vote_def)
qed

section \<open>Persistence errors\<close>

lemma skip_simps [simp]:
  "book_tbl (skip n \<sigma>) = book_tbl \<sigma>"
  "selection_tbl (skip n \<sigma>) = selection_tbl \<sigma>"
  "book_selection_tbl (skip n \<sigma>) = book_selection_tbl \<sigma>"
  "vote_tbl (skip n \<sigma>) = vote_tbl \<sigma>"
  "faults (skip n \<sigma>) = drop n (faults \<sigma>)"
  "skip m (skip n \<sigma>) = skip (n + m) \<sigma>"
  "skip 0 \<sigma> = \<sigma>"
  by (simp_all add: skip_def add.commute)

lemma views_skip [simp]:
  "books_of sid (skip n \<sigma>) = books_of sid \<sigma>"
  "round_row k (skip n \<sigma>) = round_row k \<sigma>"
  by (simp_all add: books_of_def round_row_def)

lemma quiet_add: "quiet (a + b) \<sigma> \<longleftrightarrow> quiet a \<sigma> \<and> quiet b (skip a \<sigma>)"
  by (auto simp: quiet_def take_add)

lemma quiet_0 [simp]: "quiet 0 \<sigma>"
  by (simp add: quiet_def)

lemma quiet_update [simp]:
  "quiet n (\<sigma>\<lparr>selection_tbl := st\<rparr>) = quiet n \<sigma>"
  "quiet n (\<sigma>\<lparr>book_selection_tbl := bt\<rparr>) = quiet n \<sigma>"
  "quiet n (\<sigma>\<lparr>vote_tbl := vt\<rparr>) = quiet n \<sigma>"
  by (simp_all add: quiet_def)

lemma stmt_gen: "stmt \<sigma> = (if quiet 1 \<sigma> then None else Some DbError, skip 1 \<sigma>)"
  by (cases "faults \<sigma>") (auto simp: stmt_def quiet_def skip_def)

lemma BookDAO_read_gen:
  "BookDAO_read pk \<sigma> =
     (if quiet 1 \<sigma> then find (\<lambda>b. b_id b = pk) (book_tbl \<sigma>) else None, skip 1 \<sigma>)"
  by (simp add: BookDAO_read_def stmt_gen filter_case_find split: option.splits)

lemma get_books_by_selection_gen:
  "get_books_by_selection sid \<sigma> = (if quiet 1 \<sigma> then books_of sid \<sigma> else [], skip 1 \<sigma>)"
  by (simp add: get_books_by_selection_def stmt_gen books_of_def)

lemma find_by_round_gen:
  "find_by_round n \<sigma> =
     (if quiet 1 \<sigma>
      then (case round_row n \<sigma> of
              None \<Rightarrow> (None, skip 1 \<sigma>)
            | Some r \<Rightarrow>
                (Some \<lparr>s_id = s_id r, s_name = s_name r, s_round = s_round r, s_date = s_date r,
                        book = (if quiet 1 (skip 1 \<sigma>) then books_of (s_id r) \<sigma> else [])\<rparr>,
                 skip 2 \<sigma>))
      else (None, skip 1 \<sigma>))"
  by (simp add: find_by_round_def stmt_gen filter_case_find round_row_def
        create_selection_from_result_def get_books_by_selection_gen numeral_2_eq_2
        split: option.splits)

lemma read_books_Some:
  "read_books ids \<sigma> = (Some books, \<sigma>') \<Longrightarrow>
     quiet (length ids) \<sigma> \<and> \<sigma>' = skip (length ids) \<sigma>
     \<and> list_all (\<lambda>i. i \<in> b_id ` set (book_tbl \<sigma>)) ids \<and> map b_id books = ids"
proof (induction ids arbitrary: \<sigma> books \<sigma>')
  case Nil
  then show ?case by simp
next
  case (Cons i ids)
  from Cons.prems obtain b bs where
    q: "quiet 1 \<sigma>" and b: "find (\<lambda>b. b_id b = i) (book_tbl \<sigma>) = Some b"
    and rest: "read_books ids (skip 1 \<sigma>) = (Some bs, \<sigma>')" and books: "books = b # bs"
    by (auto simp: BookDAO_read_gen split: option.splits if_splits prod.splits)
  from Cons.IH[OF rest] have ih: "quiet (length ids) (skip 1 \<sigma>)" "\<sigma>' = skip (length ids) (skip 1 \<sigma>)"
    "list_all (\<lambda>i. i \<in> b_id ` set (book_tbl \<sigma>)) ids" "map b_id bs = ids"
    by simp_all
  from b have bi: "b_id b = i" "b \<in> set (book_tbl \<sigma>)"
    by (auto simp: find_Some_iff)
  from q ih(1) have "quiet (length (i # ids)) \<sigma>"
    using quiet_add[of 1 "length ids" \<sigma>] by simp
  with ih bi books show ?case by (auto simp: add.commute)
qed

lemma SelectionDAO_create_nonzero:
  "fst (SelectionDAO_create obj \<sigma>) \<noteq> 0 \<Longrightarrow> quiet 2 \<sigma>"
  using quiet_add[of 1 1 \<sigma>]
  by (auto simp: SelectionDAO_create_def stmt_gen Let_def numeral_2_eq_2 split: if_splits)

lemma quiet_chain:
  "quiet a \<sigma> \<Longrightarrow> quiet b (skip a \<sigma>) \<Longrightarrow> quiet (a + b) \<sigma>"
  by (simp add: quiet_add)

lemma find_by_round_Some:
  assumes "find_by_round n \<sigma> = (Some sel, \<sigma>')"
  shows "quiet 1 \<sigma> \<and> \<sigma>' = skip 2 \<sigma>
     \<and> (\<exists>r. round_row n \<sigma> = Some r \<and> s_id sel = s_id r
            \<and> book sel = (if quiet 1 (skip 1 \<sigma>) then books_of (s_id r) \<sigma> else []))"
  using assms by (auto simp: find_by_round_gen split: if_splits option.splits)

lemma create_selection_from_rules:
  assumes ok: "fst (create_selection_from k prev name rnd day ids \<sigma>)" and k: "0 < k"
  shows "length ids = k
     \<and> list_all (\<lambda>i. i \<in> b_id ` set (book_tbl \<sigma>)) ids
     \<and> (\<exists>r. round_row prev \<sigma> = Some r
            \<and> list_all (\<lambda>i. i \<in> b_id ` set (books_of (s_id r) \<sigma>)) ids)
     \<and> quiet (k + 4) \<sigma>"
proof -
  from ok have len: "length ids = k"
    by (auto simp: create_selection_from_def split: if_splits)
  from ok len obtain books \<sigma>1 where rb: "read_books ids \<sigma> = (Some books, \<sigma>1)"
    by (cases "read_books ids \<sigma>")
       (auto simp: create_selection_from_def split: option.splits)
  from read_books_Some[OF rb] len have q1: "quiet k \<sigma>" and s1: "\<sigma>1 = skip k \<sigma>"
    and found: "list_all (\<lambda>i. i \<in> b_id ` set (book_tbl \<sigma>)) ids"
    by simp_all
  from ok len rb obtain parent \<sigma>2 where fr: "find_by_round prev \<sigma>1 = (Some parent, \<sigma>2)"
    by (cases "find_by_round prev \<sigma>1")
       (auto simp: create_selection_from_def split: option.splits)
  from find_by_round_Some[OF fr] s1 obtain r where
    q2: "quiet 1 (skip k \<sigma>)" and s2: "\<sigma>2 = skip (k + 2) \<sigma>"
    and r: "round_row prev \<sigma> = Some r"
    and bp: "book parent = (if quiet 1 (skip (k + 1) \<sigma>) then books_of (s_id r) \<sigma> else [])"
    by auto
  from ok len rb fr have mem: "list_all (\<lambda>i. i \<in> set (map b_id (book parent))) ids"
    and cr: "fst (SelectionDAO_create \<lparr>s_id = 0, s_name = name, s_round = rnd,
                    s_date = Some day, book = books\<rparr> \<sigma>2) \<noteq> 0"
    by (auto simp: create_selection_from_def Let_def split: if_splits prod.splits)
  from len k have ne: "ids \<noteq> []" by auto
  with mem bp have q3: "quiet 1 (skip (k + 1) \<sigma>)"
    by (cases ids) (auto split: if_splits)
  with mem bp have mem': "list_all (\<lambda>i. i \<in> b_id ` set (books_of (s_id r) \<sigma>)) ids"
    by simp
  from SelectionDAO_create_nonzero[OF cr] s2 have q4: "quiet 2 (skip (k + 1 + 1) \<sigma>)"
    by (simp add: add.assoc)
  have a: "quiet (k + 1) \<sigma>" using quiet_chain[OF q1 q2] .
  have b: "quiet (k + 1 + 1) \<sigma>" using quiet_chain[OF a q3] .
  have c: "quiet (k + 1 + 1 + 2) \<sigma>" using quiet_chain[OF b q4] .
  have e4: "k + 1 + 1 + 2 = k + 4" by simp
  have "quiet (k + 4) \<sigma>" using c unfolding e4 .
  with len found r mem' show ?thesis by simp
qed

lemma create_final_selection_rules:
  assumes ok: "fst (create_final_selection \<sigma>)"
  shows "(\<exists>r. round_row 3 \<sigma> = Some r \<and> length (books_of (s_id r) \<sigma>) = 4) \<and> quiet 4 \<sigma>"
proof -
  from ok obtain troisieme \<sigma>1 where fr: "find_by_round 3 \<sigma> = (Some troisieme, \<sigma>1)"
    by (cases "find_by_round 3 \<sigma>")
       (auto simp: create_final_selection_def split: option.splits)
  from find_by_round_Some[OF fr] obtain r where
    q1: "quiet 1 \<sigma>" and s1: "\<sigma>1 = skip 2 \<sigma>" and r: "round_row 3 \<sigma> = Some r"
    and bt: "book troisieme = (if quiet 1 (skip 1 \<sigma>) then books_of (s_id r) \<sigma> else [])"
    by auto
  from ok fr have len: "length (book troisieme) = 4"
    and cr: "fst (SelectionDAO_create
                    \<lparr>s_id = 0, s_name = ''FINALISTES DU PRIX GONCOURT'', s_round = 4,
                     s_date = Some (2025, 11, 4), book = book troisieme\<rparr> \<sigma>1) \<noteq> 0"
    by (auto simp: create_final_selection_def Let_def split: if_splits prod.splits)
  from len bt have q2: "quiet 1 (skip 1 \<sigma>)"
    by (auto split: if_splits)
  with len bt have len': "length (books_of (s_id r) \<sigma>) = 4" by simp
  from SelectionDAO_create_nonzero[OF cr] s1 have q3: "quiet 2 (skip (1 + 1) \<sigma>)"
    by (simp add: numeral_2_eq_2)
  have a: "quiet (1 + 1) \<sigma>" using quiet_chain[OF q1 q2] .
  have b: "quiet (1 + 1 + 2) \<sigma>" using quiet_chain[OF a q3] .
  have e4: "(1::nat) + 1 + 2 = 4" by simp
  have "quiet 4 \<sigma>" using b unfolding e4 .
  with r len' show ?thesis by simp
qed

lemma insert_votes_None:
  "insert_votes items sid d \<sigma> = (None, \<sigma>') \<Longrightarrow>
     quiet (length items) \<sigma> \<and> faults \<sigma>' = drop (length items) (faults \<sigma>)"
proof (induction items arbitrary: \<sigma>)
  case Nil
  then show ?case by simp
next
  case (Cons item items)
  obtain b c where item: "item = (b, c)" by (cases item)
  let ?\<sigma>1 = "(skip 1 \<sigma>)\<lparr>vote_tbl := vote_tbl \<sigma> @
       [\<lparr>v_id = lastrowid (map v_id (vote_tbl \<sigma>)), v_number_vote = c,
         v_date_vote = d, v_b_id = b, v_s_id = sid\<rparr>]\<rparr>"
  from Cons.prems item have q: "quiet 1 \<sigma>" and rest: "insert_votes items sid d ?\<sigma>1 = (None, \<sigma>')"
    by (auto simp: stmt_gen split: if_splits)
  from Cons.IH[OF rest] have ih: "quiet (length items) (skip 1 \<sigma>)"
    "faults \<sigma>' = drop (length items) (drop 1 (faults \<sigma>))"
    by simp_all
  from quiet_chain[OF q ih(1)] ih(2) show ?case by (simp add: add.commute)
qed

lemma VoteDAO_record_final_votes_True:
  assumes "fst (VoteDAO_record_final_votes votes_data sid d \<sigma>)"
  shows "quiet (length votes_data + 2) \<sigma>"
proof -
  let ?\<sigma>2 = "(skip 1 \<sigma>)\<lparr>vote_tbl := filter (\<lambda>v. v_s_id v \<noteq> sid) (vote_tbl \<sigma>)\<rparr>"
  from assms have q1: "quiet 1 \<sigma>"
    by (auto simp: VoteDAO_record_final_votes_def stmt_gen split: if_splits)
  from assms q1 obtain \<sigma>3 where iv: "insert_votes votes_data sid d ?\<sigma>2 = (None, \<sigma>3)"
    and q3: "quiet 1 \<sigma>3"
    by (cases "insert_votes votes_data sid d ?\<sigma>2")
       (auto simp: VoteDAO_record_final_votes_def stmt_gen Let_def
          split: if_splits option.splits)
  from insert_votes_None[OF iv] have q2: "quiet (length votes_data) (skip 1 \<sigma>)"
    and f3: "faults \<sigma>3 = drop (length votes_data) (drop 1 (faults \<sigma>))"
    by simp_all
  from q3 f3 have q3': "quiet 1 (skip (1 + length votes_data) \<sigma>)"
    by (simp add: quiet_def add.commute)
  have a: "quiet (1 + length votes_data) \<sigma>" using quiet_chain[OF q1 q2] .
  have b: "quiet (1 + length votes_data + 1) \<sigma>" using quiet_chain[OF a q3'] .
  have e: "1 + length votes_data + 1 = length votes_data + 2" by simp
  show ?thesis using b unfolding e .
qed

lemma record_final_votes_rules:
  assumes ok: "fst (record_final_votes votes_data today \<sigma>)"
  shows "(\<exists>r. round_row 4 \<sigma> = Some r
            \<and> list_all (\<lambda>i. i \<in> b_id ` set (books_of (s_id r) \<sigma>)) (map fst votes_data))
     \<and> sum_list (map snd votes_data) = 10
     \<and> quiet (length votes_data + 4) \<sigma>"
proof -
  from ok obtain finale \<sigma>1 where fr: "find_by_round 4 \<sigma> = (Some finale, \<sigma>1)"
    by (cases "find_by_round 4 \<sigma>")
       (auto simp: record_final_votes_def split: option.splits)
  from find_by_round_Some[OF fr] obtain r where
    q1: "quiet 1 \<sigma>" and s1: "\<sigma>1 = skip 2 \<sigma>" and r: "round_row 4 \<sigma> = Some r"
    and bf: "book finale = (if quiet 1 (skip 1 \<sigma>) then books_of (s_id r) \<sigma> else [])"
    by auto
  from ok fr have mem: "list_all (\<lambda>i. i \<in> set (map b_id (book finale))) (map fst votes_data)"
    and sum: "sum_list (map snd votes_data) = 10"
    and dao: "fst (VoteDAO_record_final_votes votes_data (s_id finale) today \<sigma>1)"
    by (auto simp: record_final_votes_def Let_def split: if_splits)
  from sum have ne: "votes_data \<noteq> []" by auto
  with mem bf have q2: "quiet 1 (skip 1 \<sigma>)"
    by (cases votes_data) (auto split: if_splits)
  with mem bf have mem': "list_all (\<lambda>i. i \<in> b_id ` set (books_of (s_id r) \<sigma>)) (map fst votes_data)"
    by simp
  from VoteDAO_record_final_votes_True[OF dao] s1
  have q3: "quiet (length votes_data + 2) (skip (1 + 1) \<sigma>)"
    by (simp add: numeral_2_eq_2)
  have a: "quiet (1 + 1) \<sigma>" using quiet_chain[OF q1 q2] .
  have b: "quiet (1 + 1 + (length votes_data + 2)) \<sigma>" using quiet_chain[OF a q3] .
  have e4: "1 + 1 + (length votes_data + 2) = length votes_data + 4" by simp
  have "quiet (length votes_data + 4) \<sigma>" using b unfolding e4 .
  with r mem' sum show ?thesis by simp
qed

lemma run_fault: "create_final_selection db_fault = (True, db_fault_after)"
  by (simp add: create_final_selection_def find_by_round_def stmt_def get_books_by_selection_def
       create_selection_from_result_def SelectionDAO_create_def add_book_to_selection_def
       lastrowid_def db_fault_def db_fault_after_def catalogue_def catalogue_book_def
       row1_def row2_def row3_def row4_def links1_def links2_def links3_def)

text \<open>
  \<^verbatim>\<open>VoteDAO.record_final_votes\<close> does not roll back. When the second insert raises, the
  operation returns \<^verbatim>\<open>False\<close>, and the connection then reads one vote where it read four:
  the old votes are deleted and the first new one is inserted.
\<close>

lemma record_final_votes_partial_on_error:
  "fst (record_final_votes [(1, 4), (2, 3), (3, 2), (4, 1)] (2025, 11, 5) db_voted_fault) = False
   \<and> map (\<lambda>v. (v_b_id v, v_number_vote v, v_s_id v))
         (vote_tbl (snd (record_final_votes [(1, 4), (2, 3), (3, 2), (4, 1)] (2025, 11, 5)
                           db_voted_fault)))
       = [(1, 4, 4)]"
  by (simp add: record_final_votes_def find_by_round_def stmt_def get_books_by_selection_def
       create_selection_from_result_def VoteDAO_record_final_votes_def lastrowid_def
       db_voted_fault_def votes1_def catalogue_def catalogue_book_def
       row1_def row2_def row3_def row4_def links1_def links2_def links3_def links4_def)

text \<open>
  Claim C9. A persistence error is not always surfaced as a failure. In \<open>db_fault\<close> the
  fifth statement of \<^verbatim>\<open>create_final_selection\<close> raises: it is the insert of the first
  finalist into \<^verbatim>\<open>book_selection\<close>. \<^verbatim>\<open>add_book_to_selection\<close> catches the error and returns
  \<^verbatim>\<open>False\<close>, \<^verbatim>\<open>SelectionDAO.create\<close> drops that result and returns the identifier, where its
  docstring promises 0 on an error, and the operation returns \<^verbatim>\<open>True\<close>: round 4 is stored
  with three of the four books of round 3.
\<close>

theorem create_final_selection_swallows_error:
  "faults db_fault = [False, False, False, False, True]
   \<and> fst (create_final_selection db_fault)
   \<and> map_option (\<lambda>s. map b_id (book s))
         (fst (find_by_round 4 (snd (create_final_selection db_fault)))) = Some [2, 3, 4]
   \<and> map_option (\<lambda>s. map b_id (book s))
         (fst (find_by_round 3 (snd (create_final_selection db_fault)))) = Some [1, 2, 3, 4]"
proof -
  have h: "faults db_fault_after = []" by (simp add: db_fault_after_def)
  show ?thesis
    by (simp add: run_fault find_by_round_ok h)
       (simp add: db_fault_def db_fault_after_def run_defs)
qed

text \<open>
  The other statements do report their errors. Whatever the schedule, each of
  \<^verbatim>\<open>create_deuxieme_selection\<close>, \<^verbatim>\<open>create_troisieme_selection\<close>, \<^verbatim>\<open>create_final_selection\<close> and
  \<^verbatim>\<open>record_final_votes\<close> returns \<^verbatim>\<open>True\<close> only if every business rule holds of the tables
  and none of its statements up to and including the commit of the round's row (for
  \<^verbatim>\<open>record_final_votes\<close>: none of its statements at all) has raised.
\<close>

lemma violations_and_errors_reported:
  "(fst (create_deuxieme_selection ids2 \<sigma>) \<longrightarrow>
      length ids2 = 8
      \<and> list_all (\<lambda>i. i \<in> b_id ` set (book_tbl \<sigma>)) ids2
      \<and> (\<exists>r. round_row 1 \<sigma> = Some r
             \<and> list_all (\<lambda>i. i \<in> b_id ` set (books_of (s_id r) \<sigma>)) ids2)
      \<and> quiet 12 \<sigma>)
   \<and> (fst (create_troisieme_selection ids3 \<sigma>) \<longrightarrow>
      length ids3 = 4
      \<and> list_all (\<lambda>i. i \<in> b_id ` set (book_tbl \<sigma>)) ids3
      \<and> (\<exists>r. round_row 2 \<sigma> = Some r
             \<and> list_all (\<lambda>i. i \<in> b_id ` set (books_of (s_id r) \<sigma>)) ids3)
      \<and> quiet 8 \<sigma>)
   \<and> (fst (create_final_selection \<sigma>) \<longrightarrow>
      (\<exists>r. round_row 3 \<sigma> = Some r \<and> length (books_of (s_id r) \<sigma>) = 4) \<and> quiet 4 \<sigma>)
   \<and> (fst (record_final_votes votes_data today \<sigma>) \<longrightarrow>
      (\<exists>r. round_row 4 \<sigma> = Some r
          \<and> list_all (\<lambda>i. i \<in> b_id ` set (books_of (s_id r) \<sigma>)) (map fst votes_data))
      \<and> sum_list (map snd votes_data) = 10
      \<and> quiet (length votes_data + 4) \<sigma>)"
proof -
  have a: "fst (create_deuxieme_selection ids2 \<sigma>) \<longrightarrow>
      length ids2 = 8
      \<and> list_all (\<lambda>i. i \<in> b_id ` set (book_tbl \<sigma>)) ids2
      \<and> (\<exists>r. round_row 1 \<sigma> = Some r
             \<and> list_all (\<lambda>i. i \<in> b_id ` set (books_of (s_id r) \<sigma>)) ids2)
      \<and> quiet 12 \<sigma>"
    unfolding create_deuxieme_selection_def
    using create_selection_from_rules[of 8 1 _ 2 _ ids2 \<sigma>] by simp
  have b: "fst (create_troisieme_selection ids3 \<sigma>) \<longrightarrow>
      length ids3 = 4
      \<and> list_all (\<lambda>i. i \<in> b_id ` set (book_tbl \<sigma>)) ids3
      \<and> (\<exists>r. round_row 2 \<sigma> = Some r
             \<and> list_all (\<lambda>i. i \<in> b_id ` set (books_of (s_id r) \<sigma>)) ids3)
      \<and> quiet 8 \<sigma>"
    unfolding create_troisieme_selection_def
    using create_selection_from_rules[of 4 2 _ 3 _ ids3 \<sigma>] by simp
  from a b create_final_selection_rules[of \<sigma>] record_final_votes_rules[of votes_data today \<sigma>]
  show ?thesis by blast
qed

lemma violations_and_errors_reported_at_db_final:
  "fst (create_deuxieme_selection [1, 2, 3, 4, 5, 6, 7, 8] db_final)
   \<and> fst (create_troisieme_selection [1, 2, 3, 4] db_final)
   \<and> fst (create_final_selection db_final)
   \<and> fst (record_final_votes [(1, 1), (2, 6), (3, 0), (4, 3)] (2025, 11, 4) db_final)
   \<and> quiet 12 db_final
   \<and> round_row 4 db_final = Some row4"
proof -
  have h: "faults db_final = []" by (simp add: db_final_def)
  have s2: "fst (create_deuxieme_selection [1, 2, 3, 4, 5, 6, 7, 8] db_final)"
    by (simp add: create_deuxieme_selection_def create_selection_from_ok h) (simp add: run_defs)
  have s3: "fst (create_troisieme_selection [1, 2, 3, 4] db_final)"
    by (simp add: create_troisieme_selection_def create_selection_from_ok h) (simp add: run_defs)
  have s4: "fst (create_final_selection db_final)"
    by (simp add: create_final_selection_ok h) (simp add: run_defs)
  have sv: "fst (record_final_votes [(1, 1), (2, 6), (3, 0), (4, 3)] (2025, 11, 4) db_final)"
    by (simp add: run_votes)
  have r4: "round_row 4 db_final = Some row4"
    by (simp add: run_defs)
  from violations_and_errors_reported[of "[1, 2, 3, 4, 5, 6, 7, 8]" db_final "[1, 2, 3, 4]"
         "[(1, 1), (2, 6), (3, 0), (4, 3)]" "(2025, 11, 4)"] s2 s3 s4 sv r4
  show ?thesis by simp
qed

text \<open>
  An error of the database can also leave a service operation as another exception.
  In \<open>db_voted_read_fault\<close> the third statement of \<^verbatim>\<open>display_final_results\<close> raises: it is
  the \<^verbatim>\<open>BookDAO.read\<close> of the second vote. The vote is built with no book, and
  \<^verbatim>\<open>vote.book.b_title\<close> raises \<^verbatim>\<open>AttributeError\<close>.
\<close>

lemma display_final_results_raises:
  "fst (display_final_results db_voted_read_fault) = Inl AttributeError"
  by (simp add: display_final_results_def get_final_results_def VoteDAO_get_final_results_def
       final_rows_def create_vote_from_result_def BookDAO_read_def stmt_def percentage_def
       truediv_def db_voted_read_fault_def votes1_def catalogue_def catalogue_book_def
       row1_def row2_def row3_def row4_def)

section \<open>The number of books of a round\<close>

lemmas bug_defs = db_round2_dup_def db_two_def db_round3_dup_def row5_def row6_def
  db_again3_def db_again4_def

lemma VoteDAO_get_final_results_ok:
  "faults \<sigma> = [] \<Longrightarrow> VoteDAO_get_final_results \<sigma> = (map (vote_of \<sigma>) (final_rows \<sigma>), \<sigma>)"
  by (simp add: VoteDAO_get_final_results_def stmt_ok create_votes_ok)

lemma get_current_state_ok:
  "faults \<sigma> = [] \<Longrightarrow> get_current_state \<sigma> =
     (\<lparr>premiere_selection = (round_row 1 \<sigma> \<noteq> None), deuxieme_selection = (round_row 2 \<sigma> \<noteq> None),
       troisieme_selection = (round_row 3 \<sigma> \<noteq> None), final_selection = (round_row 4 \<sigma> \<noteq> None),
       votes_recorded = (final_rows \<sigma> \<noteq> [])\<rparr>, \<sigma>)"
  by (simp add: get_current_state_def find_by_round_ok VoteDAO_get_final_results_ok)

lemma get_available_books_for_selection_ok:
  "faults \<sigma> = [] \<Longrightarrow> get_available_books_for_selection n \<sigma> =
     (if n = 1 then book_tbl \<sigma>
      else if n = 2 then (case round_row 1 \<sigma> of None \<Rightarrow> [] | Some r \<Rightarrow> books_of (s_id r) \<sigma>)
      else if n = 3 then (case round_row 2 \<sigma> of None \<Rightarrow> [] | Some r \<Rightarrow> books_of (s_id r) \<sigma>)
      else [], \<sigma>)"
  by (simp add: get_available_books_for_selection_def find_by_round_ok BookDAO_read_all_ok
        selection_of_def split: option.splits)

text \<open>
  Claim C4. The rounds do not always hold 15, 8, 4 and 4 books. \<^verbatim>\<open>create_deuxieme_selection\<close>
  counts the identifiers given, not the books: the list 1, 1, 2, 3, 4, 5, 6, 7 has eight
  entries and is accepted, \<^verbatim>\<open>INSERT IGNORE\<close> drops the second link of book 1, and round 2 is
  stored with seven books. Round 1 takes the whole catalogue, whatever its size: from a
  catalogue of two books it has two.
\<close>

theorem duplicate_ids_shrink_the_round:
  "create_deuxieme_selection [1, 1, 2, 3, 4, 5, 6, 7] db_round1 = (True, db_round2_dup)
   \<and> map_option (\<lambda>s. map b_id (book s)) (fst (find_by_round 2 db_round2_dup))
       = Some [1, 2, 3, 4, 5, 6, 7]
   \<and> map_option (\<lambda>s. map b_id (book s))
        (fst (find_by_round 1 (initialize_first_selection db_two))) = Some [1, 2]"
proof -
  have h: "faults db_round2_dup = []" "faults db_two = []"
    by (simp_all add: bug_defs)
  have a: "create_deuxieme_selection [1, 1, 2, 3, 4, 5, 6, 7] db_round1 = (True, db_round2_dup)"
    by (simp add: create_deuxieme_selection_def create_selection_from_ok run_defs bug_defs)
  have b: "map_option (\<lambda>s. map b_id (book s)) (fst (find_by_round 2 db_round2_dup))
       = Some [1, 2, 3, 4, 5, 6, 7]"
    by (simp add: find_by_round_ok h) (simp add: run_defs bug_defs)
  have i: "faults (initialize_first_selection db_two) = []"
    by (simp add: initialize_first_selection_ok h) (simp add: run_defs bug_defs)
  have c: "map_option (\<lambda>s. map b_id (book s))
        (fst (find_by_round 1 (initialize_first_selection db_two))) = Some [1, 2]"
    by (simp add: find_by_round_ok i) (simp add: initialize_first_selection_ok h run_defs bug_defs)
  from a b c show ?thesis by simp
qed

text \<open>
  Claim C5. The console calls \<^verbatim>\<open>create_final_selection\<close> after each successful creation,
  but the final selection is not always created after round 3: the operator types
  \<^verbatim>\<open>1,1,2,3\<close>, the indices 0, 0, 1, 2 select the books 1, 1, 2, 3 of round 2, round 3 is
  created with three books, and \<^verbatim>\<open>create_final_selection\<close> then refuses it. Round 4 does
  not exist afterwards.
\<close>

theorem duplicate_choice_leaves_no_final_selection:
  "app_create_troisieme_selection '''' (Some [0, 0, 1, 2]) db_round2 = db_round3_dup
   \<and> create_troisieme_selection [1, 1, 2, 3] db_round2 = (True, db_round3_dup)
   \<and> map_option (\<lambda>s. map b_id (book s)) (fst (find_by_round 3 db_round3_dup)) = Some [1, 2, 3]
   \<and> fst (find_by_round 4 db_round3_dup) = None"
proof -
  have h: "faults db_round2 = []" "faults db_round3_dup = []"
    by (simp_all add: db_round2_def bug_defs)
  have a: "create_troisieme_selection [1, 1, 2, 3] db_round2 = (True, db_round3_dup)"
    by (simp add: create_troisieme_selection_def create_selection_from_ok run_defs bug_defs)
  have f: "create_final_selection db_round3_dup = (False, db_round3_dup)"
    by (simp add: create_final_selection_ok h) (simp add: run_defs bug_defs)
  have st: "get_current_state db_round2 =
      (\<lparr>premiere_selection = True, deuxieme_selection = True, troisieme_selection = False,
        final_selection = False, votes_recorded = False\<rparr>, db_round2)"
    by (simp add: get_current_state_ok h) (simp add: final_rows_def run_defs)
  have av: "get_available_books_for_selection 3 db_round2 =
      (map catalogue_book [1, 2, 3, 4, 5, 6, 7, 8], db_round2)"
    by (simp add: get_available_books_for_selection_ok h) (simp add: run_defs)
  have app: "app_create_troisieme_selection '''' (Some [0, 0, 1, 2]) db_round2 = db_round3_dup"
    by (simp add: app_create_troisieme_selection_def app_create_selection_def st av a f
          catalogue_book_def)
  have b: "map_option (\<lambda>s. map b_id (book s)) (fst (find_by_round 3 db_round3_dup)) = Some [1, 2, 3]"
    by (simp add: find_by_round_ok h) (simp add: run_defs bug_defs)
  have c: "fst (find_by_round 4 db_round3_dup) = None"
    by (simp add: find_by_round_ok h) (simp add: run_defs bug_defs)
  from app a b c show ?thesis by simp
qed

section \<open>Creating the final selection again\<close>

text \<open>
  Claim C3. \<^verbatim>\<open>create_final_selection\<close> adds a row and never replaces one. After the run,
  round 3 is created again with books 5 to 8 and the final selection again: both calls
  return \<^verbatim>\<open>True\<close>, the table holds two rows of round 3 and two of round 4, and
  \<^verbatim>\<open>find_by_round\<close> still returns the first final selection, number 4, with books 1 to 4,
  while the round 3 just created, number 5, holds books 5 to 8.
\<close>

theorem final_selection_is_not_replaced:
  "create_troisieme_selection [5, 6, 7, 8] db_final = (True, db_again3)
   \<and> create_final_selection db_again3 = (True, db_again4)
   \<and> map (\<lambda>r. (s_id r, s_round r)) (selection_tbl db_again4)
       = [(1, 1), (2, 2), (3, 3), (4, 4), (5, 3), (6, 4)]
   \<and> map_option (\<lambda>s. (s_id s, map b_id (book s))) (fst (find_by_round 4 db_again4))
       = Some (4, [1, 2, 3, 4])
   \<and> map b_id (fst (get_books_by_selection 5 db_again4)) = [5, 6, 7, 8]"
proof -
  have h: "faults db_again3 = []" "faults db_again4 = []"
    by (simp_all add: bug_defs)
  have a: "create_troisieme_selection [5, 6, 7, 8] db_final = (True, db_again3)"
    by (simp add: create_troisieme_selection_def create_selection_from_ok run_defs bug_defs)
  have b: "create_final_selection db_again3 = (True, db_again4)"
    by (simp add: create_final_selection_ok h) (simp add: run_defs bug_defs)
  have c: "map (\<lambda>r. (s_id r, s_round r)) (selection_tbl db_again4)
       = [(1, 1), (2, 2), (3, 3), (4, 4), (5, 3), (6, 4)]"
    by (simp add: run_defs bug_defs)
  have d: "map_option (\<lambda>s. (s_id s, map b_id (book s))) (fst (find_by_round 4 db_again4))
       = Some (4, [1, 2, 3, 4])"
    by (simp add: find_by_round_ok h) (simp add: run_defs bug_defs)
  have e: "map b_id (fst (get_books_by_selection 5 db_again4)) = [5, 6, 7, 8]"
    by (simp add: get_books_by_selection_ok h) (simp add: run_defs bug_defs)
  from a b c d e show ?thesis by simp
qed

end
